theory Spec2Isabelle
  imports Main
begin

section \<open>JavaScript values used by the client\<close>

text \<open>
  The client of \<^verbatim>\<open>web/remix-app/app/lib/wordpress-api.ts\<close> handles parsed JSON
  (\<^verbatim>\<open>response.json()\<close>), numbers that may be \<^verbatim>\<open>NaN\<close> (\<^verbatim>\<open>parseInt\<close>) and strings.
  Strings are byte strings (UTF-8); numbers are integers, with \<^verbatim>\<open>NaN\<close> as a
  separate value where the code can produce it.
\<close>

datatype json =
    JNull
  | JBool bool
  | JNum int
  | JStr string
  | JArr "json list"
  | JObj "(string \<times> json) list"

datatype number = NaN | Num int

text \<open>Decimal digits of a natural number, as \<^verbatim>\<open>Number.prototype.toString\<close> prints them.\<close>

definition digit_char :: "nat \<Rightarrow> char" where
  "digit_char d = ''0123456789'' ! d"

fun digits :: "nat \<Rightarrow> string" where
  "digits n = (if n < 10 then [digit_char n] else digits (n div 10) @ [digit_char (n mod 10)])"

declare digits.simps [simp del]

definition int_toString :: "int \<Rightarrow> string" where
  "int_toString i = (if i < 0 then CHR ''-'' # digits (nat (- i)) else digits (nat i))"

text \<open>\<^verbatim>\<open>join\<close> of an array of strings with a separator.\<close>

fun join :: "string \<Rightarrow> string list \<Rightarrow> string" where
  "join sep [] = []"
| "join sep [x] = x"
| "join sep (x # y # ys) = x @ sep @ join sep (y # ys)"

text \<open>A list of results that may each have failed: all of them, or the failure.\<close>

fun all_some :: "'a option list \<Rightarrow> 'a list option" where
  "all_some [] = Some []"
| "all_some (None # xs) = None"
| "all_some (Some x # xs) = map_option ((#) x) (all_some xs)"

text \<open>
  \<^verbatim>\<open>ToString\<close> of a parsed JSON value: what the \<^verbatim>\<open>Error\<close> constructor does to its
  message argument. \<open>None\<close> is the \<^verbatim>\<open>TypeError\<close> it can throw. An object parsed from JSON
  (\<open>JObj\<close>, its keys distinct as \<^verbatim>\<open>JSON.parse\<close> leaves them) has no callable property of
  its own: when it has an own property \<^verbatim>\<open>toString\<close>, that one is not callable and
  \<^verbatim>\<open>valueOf\<close> gives no primitive either, so the conversion throws; otherwise
  \<^verbatim>\<open>Object.prototype.toString\<close> prints \<^verbatim>\<open>[object Object]\<close>. An array joins the conversions
  of its elements with commas, \<^verbatim>\<open>null\<close> elements printing as the empty string, and throws
  when an element's conversion does.
\<close>

fun js_toString :: "json \<Rightarrow> string option" where
  "js_toString JNull = Some ''null''"
| "js_toString (JBool b) = Some (if b then ''true'' else ''false'')"
| "js_toString (JNum i) = Some (int_toString i)"
| "js_toString (JStr s) = Some s"
| "js_toString (JArr xs) =
     map_option (join '','')
       (all_some (map (\<lambda>x. if x = JNull then Some [] else js_toString x) xs))"
| "js_toString (JObj kvs) =
     (case map_of kvs ''toString'' of
        Some f \<Rightarrow> None
      | None \<Rightarrow> Some ''[object Object]'')"

text \<open>Truthiness of a parsed JSON value (\<^verbatim>\<open>x || fallback\<close>).\<close>

fun truthy :: "json \<Rightarrow> bool" where
  "truthy JNull = False"
| "truthy (JBool b) = b"
| "truthy (JNum i) = (i \<noteq> 0)"
| "truthy (JStr s) = (s \<noteq> [])"
| "truthy (JArr xs) = True"
| "truthy (JObj kvs) = True"

section \<open>Errors and outcomes\<close>

text \<open>
  \<^verbatim>\<open>WordPressApiError\<close> carries a message, an optional status and an optional code.
  Every other error the client can see (\<^verbatim>\<open>TypeError\<close> from a failed \<^verbatim>\<open>fetch\<close> or a
  property read on \<^verbatim>\<open>null\<close>, \<^verbatim>\<open>AbortError\<close>, \<^verbatim>\<open>TimeoutError\<close>, \<^verbatim>\<open>SyntaxError\<close> from
  \<^verbatim>\<open>response.json()\<close>) is a \<open>JsError\<close> with its name and message.
\<close>

datatype js_error =
    WordPressApiError string "nat option" "json option"
  | JsError string string

text \<open>
  An awaited promise either resolves, rejects, or stays pending for ever; an \<^verbatim>\<open>async\<close>
  function returns, throws, or never settles.
\<close>

datatype 'a outcome = Returned 'a | Thrown js_error | NeverSettles

section \<open>The network and the clock\<close>

record response =
  status :: nat
  statusText :: string
  headers :: "string \<rightharpoonup> string"
  body :: "json option"

text \<open>\<^verbatim>\<open>response.ok\<close>: the status is in the range 200 to 299.\<close>

definition ok :: "response \<Rightarrow> bool" where
  "ok r = (200 \<le> status r \<and> status r \<le> 299)"

text \<open>
  \<^verbatim>\<open>response.headers.get(name)\<close>: header names are case-insensitive; the map \<open>headers\<close>
  is keyed by lower-case names.
\<close>

definition ascii_lower :: "char \<Rightarrow> char" where
  "ascii_lower c =
     (let n = (of_char c :: nat) in if 65 \<le> n \<and> n \<le> 90 then char_of (n + 32) else c)"

definition headers_get :: "response \<Rightarrow> string \<Rightarrow> string option" where
  "headers_get r name = headers r (map ascii_lower name)"

text \<open>
  What the backend does with one network call: answer after some milliseconds, fail at
  the network level after some milliseconds (\<^verbatim>\<open>fetch\<close> rejects with a \<^verbatim>\<open>TypeError\<close>), or
  never answer. An answer is complete: its body has arrived with it, parsed, or is
  \<open>None\<close> when it is not JSON. Never answering leaves the promise of \<^verbatim>\<open>fetch\<close> pending for
  as long as no signal aborts it. A backend is asked with the number of calls issued
  before this one and the URL.
\<close>

datatype behaviour = Respond nat response | Fail nat string | Hang

type_synonym backend = "nat \<Rightarrow> string \<Rightarrow> behaviour"

text \<open>The world outside the client: \<^verbatim>\<open>Date.now()\<close> in milliseconds and the network calls issued so far.\<close>

record world =
  now :: int
  calls :: "string list"

text \<open>
  \<^verbatim>\<open>fetch(url, {signal})\<close>. \<open>aborted\<close> is the signal's state at the call, \<open>deadline\<close> the
  time at which a timer still armed will abort it, \<open>reason\<close> the error an abort rejects
  with. A signal already aborted rejects at once and nothing is sent. Otherwise the
  call is issued; it settles when the backend does, unless the deadline comes first.
  Without a deadline a backend that never answers leaves the promise pending.
\<close>

definition fetch ::
  "backend \<Rightarrow> bool \<Rightarrow> int option \<Rightarrow> js_error \<Rightarrow> string \<Rightarrow> world \<Rightarrow> response outcome \<times> world" where
  "fetch B aborted deadline reason url w =
     (if aborted then (Thrown reason, w)
      else
        let w1 = w\<lparr>calls := calls w @ [url]\<rparr>;
            settle = (\<lambda>lat res.
              case deadline of
                None \<Rightarrow> (res, w1\<lparr>now := now w + int lat\<rparr>)
              | Some d \<Rightarrow>
                  if now w + int lat < d then (res, w1\<lparr>now := now w + int lat\<rparr>)
                  else (Thrown reason, w1\<lparr>now := max (now w) d\<rparr>))
        in case B (length (calls w)) url of
             Respond lat r \<Rightarrow> settle lat (Returned r)
           | Fail lat msg \<Rightarrow> settle lat (Thrown (JsError ''TypeError'' msg))
           | Hang \<Rightarrow>
               (case deadline of
                  None \<Rightarrow> (NeverSettles, w1)
                | Some d \<Rightarrow> (Thrown reason, w1\<lparr>now := max (now w) d\<rparr>)))"

section \<open>The client\<close>

text \<open>
  \<^verbatim>\<open>WordPressConfig\<close> as the constructor completes it (\<^verbatim>\<open>Required<WordPressConfig>\<close>).
  The source's field \<^verbatim>\<open>config.cache\<close> is \<open>cacheEnabled\<close> here, since the client's map
  is called \<open>cache\<close> too. \<open>timeout\<close> is a whole number of milliseconds, not negative. A
  retry count that is zero, negative or \<^verbatim>\<open>NaN\<close> never enters the loop; all of them are
  \<open>retries = 0\<close>.
\<close>

record config =
  baseUrl :: string
  timeout :: nat
  cacheEnabled :: bool
  retries :: nat

record cache_entry =
  entry_data :: json
  timestamp :: int
  ttl :: int

record client =
  config :: config
  cache :: "string \<rightharpoonup> cache_entry"

text \<open>The constructor: defaults, overridden by the fields the caller supplies.\<close>

definition new_client :: "string \<Rightarrow> nat option \<Rightarrow> bool option \<Rightarrow> nat option \<Rightarrow> client" where
  "new_client url t ce rt =
     \<lparr>config = \<lparr>baseUrl = url,
                 timeout = (case t of None \<Rightarrow> 10000 | Some x \<Rightarrow> x),
                 cacheEnabled = (case ce of None \<Rightarrow> True | Some x \<Rightarrow> x),
                 retries = (case rt of None \<Rightarrow> 3 | Some x \<Rightarrow> x)\<rparr>,
      cache = Map.empty\<rparr>"

text \<open>
  \<^verbatim>\<open>RequestInit\<close>: only \<^verbatim>\<open>method\<close> is read by the client (the field \<open>http_method\<close>).
  \<^verbatim>\<open>JSON.stringify(options)\<close> is \<^verbatim>\<open>{}\<close> when no method is given, the only case the
  client's own calls produce. In a method name the quote and the backslash are escaped;
  control characters, which no method name has, are not modelled.
\<close>

record request_init =
  http_method :: "string option"

definition json_quote :: "string \<Rightarrow> string" where
  "json_quote s =
     CHR 0x22 # concat (map (\<lambda>c. if c = CHR 0x22 \<or> c = CHR 0x5C then [CHR 0x5C, c] else [c]) s)
       @ [CHR 0x22]"

definition JSON_stringify :: "request_init \<Rightarrow> string" where
  "JSON_stringify opts =
     (case http_method opts of
        None \<Rightarrow> ''{}''
      | Some m \<Rightarrow> ''{'' @ json_quote ''method'' @ '':'' @ json_quote m @ ''}'')"

definition default_options :: request_init where
  "default_options = \<lparr>http_method = None\<rparr>"

definition default_cacheTtl :: int where
  "default_cacheTtl = 5 * 60 * 1000"

subsection \<open>The abort controller and its timer\<close>

text \<open>
  \<^verbatim>\<open>request\<close> creates one \<^verbatim>\<open>AbortController\<close> and one timer
  (\<^verbatim>\<open>setTimeout(() => controller.abort(), timeout)\<close>) before its retry loop.
  \<open>timer\<close> is the time at which the timer fires while it is armed; \<^verbatim>\<open>clearTimeout\<close>
  and firing both disarm it.
\<close>

record controller =
  aborted :: bool
  timer :: "int option"

definition abort_error :: js_error where
  "abort_error = JsError ''AbortError'' ''This operation was aborted''"

definition run_timers :: "controller \<Rightarrow> world \<Rightarrow> controller" where
  "run_timers ctl w =
     (case timer ctl of
        Some d \<Rightarrow> if d \<le> now w then \<lparr>aborted = True, timer = None\<rparr> else ctl
      | None \<Rightarrow> ctl)"

text \<open>\<^verbatim>\<open>await new Promise(resolve => setTimeout(resolve, ms))\<close>\<close>

definition sleep :: "int \<Rightarrow> controller \<Rightarrow> world \<Rightarrow> controller \<times> world" where
  "sleep ms ctl w = (let w1 = w\<lparr>now := now w + ms\<rparr> in (run_timers ctl w1, w1))"

subsection \<open>request\<close>

text \<open>Reading a property of a parsed JSON value; \<open>None\<close> is \<^verbatim>\<open>undefined\<close>.\<close>

fun get_prop :: "json \<Rightarrow> string \<Rightarrow> json option" where
  "get_prop (JObj kvs) k = map_of kvs k"
| "get_prop _ k = None"

text \<open>
  The message of the typed error, as the \<^verbatim>\<open>Error\<close> constructor stores it:
  \<^verbatim>\<open>errorData.message || `HTTP ${response.status}: ${response.statusText}`\<close> converted to a
  string. \<open>None\<close> when that conversion throws.
\<close>

definition response_message :: "json \<Rightarrow> response \<Rightarrow> string option" where
  "response_message errorData r =
     (case get_prop errorData ''message'' of
        Some m \<Rightarrow> if truthy m then js_toString m
                  else Some (''HTTP '' @ digits (status r) @ '': '' @ statusText r)
      | None \<Rightarrow> Some (''HTTP '' @ digits (status r) @ '': '' @ statusText r))"

text \<open>
  The body of \<^verbatim>\<open>if (!response.ok)\<close>: \<^verbatim>\<open>errorData\<close> is the parsed body, or \<^verbatim>\<open>{}\<close> when
  the body does not parse. Reading \<^verbatim>\<open>errorData.message\<close> of \<^verbatim>\<open>null\<close> throws a
  \<^verbatim>\<open>TypeError\<close> instead of the typed error, and so does the constructor when the message
  cannot be converted to a string.
\<close>

definition errorData :: "response \<Rightarrow> json" where
  "errorData r = (case body r of None \<Rightarrow> JObj [] | Some d \<Rightarrow> d)"

definition error_from_response :: "response \<Rightarrow> js_error" where
  "error_from_response r =
     (if errorData r = JNull
      then JsError ''TypeError'' ''Cannot read properties of null (reading 'message')''
      else case response_message (errorData r) r of
             None \<Rightarrow> JsError ''TypeError'' ''Cannot convert object to primitive value''
           | Some message \<Rightarrow>
               WordPressApiError message (Some (status r)) (get_prop (errorData r) ''code''))"

text \<open>
  The \<^verbatim>\<open>throw new WordPressApiError(...)\<close> of that branch is reached and completes: the
  error body is not \<^verbatim>\<open>null\<close> and its message can be converted to a string.
\<close>

definition typed_error_response :: "response \<Rightarrow> bool" where
  "typed_error_response r =
     (errorData r \<noteq> JNull \<and> response_message (errorData r) r \<noteq> None)"

text \<open>One pass through the \<^verbatim>\<open>try\<close> block: the value to return, or the error caught.\<close>

datatype try_result = Completed json | Caught js_error | Stuck

definition try_block :: "backend \<Rightarrow> string \<Rightarrow> controller \<Rightarrow> world \<Rightarrow> try_result \<times> controller \<times> world" where
  "try_block B url ctl w =
     (case fetch B (aborted ctl) (timer ctl) abort_error url w of
        (NeverSettles, w1) \<Rightarrow> (Stuck, ctl, w1)
      | (Thrown e, w1) \<Rightarrow> (Caught e, run_timers ctl w1, w1)
      | (Returned r, w1) \<Rightarrow>
          (let ctl1 = ctl\<lparr>timer := None\<rparr> in
           if \<not> ok r then (Caught (error_from_response r), ctl1, w1)
           else case body r of
                  None \<Rightarrow> (Caught (JsError ''SyntaxError'' ''Unexpected token in JSON''), ctl1, w1)
                | Some d \<Rightarrow> (Completed d, ctl1, w1)))"

text \<open>\<^verbatim>\<open>error instanceof WordPressApiError && error.status && error.status < 500\<close>\<close>

fun is_client_error :: "js_error \<Rightarrow> bool" where
  "is_client_error (WordPressApiError m (Some s) c) = (s \<noteq> 0 \<and> s < 500)"
| "is_client_error _ = False"

text \<open>
  The loop \<^verbatim>\<open>for (let attempt = 0; attempt < this.config.retries; attempt++)\<close> and the
  \<^verbatim>\<open>throw\<close> after it. A value ends the loop and is stored in the cache when the request is
  cacheable; a client error is thrown again at once; any other error is kept as
  \<^verbatim>\<open>lastError\<close> and, unless this was the last attempt, the loop waits
  \<^verbatim>\<open>Math.pow(2, attempt) * 1000\<close> milliseconds before the next attempt. The controller and
  its timer are those created before the loop.
\<close>

function retry_loop ::
  "backend \<Rightarrow> string \<Rightarrow> string \<Rightarrow> bool \<Rightarrow> int \<Rightarrow> nat \<Rightarrow> js_error option \<Rightarrow> controller \<Rightarrow>
   client \<Rightarrow> world \<Rightarrow> json outcome \<times> client \<times> world" where
  "retry_loop B url cacheKey cacheable cacheTtl attempt lastError ctl c w =
     (if attempt < retries (config c) then
        (case try_block B url ctl w of
           (Stuck, ctl1, w1) \<Rightarrow> (NeverSettles, c, w1)
         | (Completed d, ctl1, w1) \<Rightarrow>
             (Returned d,
              (if cacheable
               then c\<lparr>cache := (cache c)(cacheKey \<mapsto>
                      \<lparr>entry_data = d, timestamp = now w1, ttl = cacheTtl\<rparr>)\<rparr>
               else c),
              w1)
         | (Caught e, ctl1, w1) \<Rightarrow>
             (if is_client_error e then (Thrown e, c, w1)
              else if attempt + 1 < retries (config c) then
                (case sleep (2 ^ attempt * 1000) ctl1 w1 of
                   (ctl2, w2) \<Rightarrow>
                     retry_loop B url cacheKey cacheable cacheTtl (Suc attempt) (Some e) ctl2 c w2)
              else retry_loop B url cacheKey cacheable cacheTtl (Suc attempt) (Some e) ctl1 c w1))
      else
        (Thrown (case lastError of
                   Some e \<Rightarrow> e
                 | None \<Rightarrow> WordPressApiError ''Request failed after retries'' None None),
         c, w))"
  by pat_completeness auto
termination
  by (relation "measure (\<lambda>(B, url, cacheKey, cacheable, cacheTtl, attempt, lastError, ctl, c, w).
        retries (config c) - attempt)") auto

declare retry_loop.simps [simp del]

text \<open>
  The constants \<^verbatim>\<open>url\<close> and \<^verbatim>\<open>cacheKey\<close> of \<^verbatim>\<open>request\<close>, the condition
  \<^verbatim>\<open>this.config.cache && options.method !== 'POST'\<close> under which the cache is read and
  written, and the controller with its timer armed.
\<close>

definition request_url :: "client \<Rightarrow> string \<Rightarrow> string" where
  "request_url c endpoint = baseUrl (config c) @ ''/wp-json/wp/v2'' @ endpoint"

definition cacheKey :: "client \<Rightarrow> string \<Rightarrow> request_init \<Rightarrow> string" where
  "cacheKey c endpoint opts = request_url c endpoint @ '':'' @ JSON_stringify opts"

definition cacheable :: "client \<Rightarrow> request_init \<Rightarrow> bool" where
  "cacheable c opts = (cacheEnabled (config c) \<and> http_method opts \<noteq> Some ''POST'')"

definition new_controller :: "client \<Rightarrow> world \<Rightarrow> controller" where
  "new_controller c w = \<lparr>aborted = False, timer = Some (now w + int (timeout (config c)))\<rparr>"

definition request ::
  "backend \<Rightarrow> client \<Rightarrow> world \<Rightarrow> string \<Rightarrow> request_init \<Rightarrow> int \<Rightarrow> json outcome \<times> client \<times> world" where
  "request B c w endpoint opts cacheTtl =
     (let attempts = retry_loop B (request_url c endpoint) (cacheKey c endpoint opts)
                       (cacheable c opts) cacheTtl 0 None (new_controller c w) c w
      in case (if cacheable c opts then cache c (cacheKey c endpoint opts) else None) of
           Some cached \<Rightarrow>
             if now w - timestamp cached < ttl cached then (Returned (entry_data cached), c, w)
             else attempts
         | None \<Rightarrow> attempts)"

text \<open>
  Two conditions on a run, used to state what \<^verbatim>\<open>request\<close> does: the cache holds an entry
  for the key that is still fresh (the test \<^verbatim>\<open>cached && Date.now() - cached.timestamp <
  cached.ttl\<close> under \<^verbatim>\<open>this.config.cache && options.method !== 'POST'\<close>), and a response
  that takes \<open>lat\<close> milliseconds arrives before the controller's timer fires.
\<close>

definition cache_hit :: "client \<Rightarrow> world \<Rightarrow> string \<Rightarrow> request_init \<Rightarrow> bool" where
  "cache_hit c w endpoint opts =
     (cacheable c opts \<and>
      (case cache c (cacheKey c endpoint opts) of
         Some cached \<Rightarrow> now w - timestamp cached < ttl cached
       | None \<Rightarrow> False))"

definition in_time :: "controller \<Rightarrow> world \<Rightarrow> nat \<Rightarrow> bool" where
  "in_time ctl w lat = (case timer ctl of None \<Rightarrow> True | Some d \<Rightarrow> now w + int lat < d)"



section \<open>Query strings\<close>

text \<open>
  \<^verbatim>\<open>URLSearchParams\<close>: an ordered list of name-value pairs; \<^verbatim>\<open>append\<close> adds at the end and
  \<^verbatim>\<open>toString\<close> serialises as \<^verbatim>\<open>application/x-www-form-urlencoded\<close>: letters, digits and
  \<^verbatim>\<open>* - . _\<close> stay, a space becomes \<^verbatim>\<open>+\<close>, every other byte becomes \<^verbatim>\<open>%XX\<close>.
\<close>

type_synonym search_params = "(string \<times> string) list"

definition append :: "search_params \<Rightarrow> string \<Rightarrow> string \<Rightarrow> search_params" where
  "append sp k v = sp @ [(k, v)]"

definition hex_char :: "nat \<Rightarrow> char" where
  "hex_char d = ''0123456789ABCDEF'' ! d"

definition form_encode_byte :: "char \<Rightarrow> string" where
  "form_encode_byte c =
     (let n = (of_char c :: nat) in
      if n = 0x20 then ''+''
      else if n = 0x2A \<or> n = 0x2D \<or> n = 0x2E \<or> n = 0x5F
              \<or> (0x30 \<le> n \<and> n \<le> 0x39) \<or> (0x41 \<le> n \<and> n \<le> 0x5A) \<or> (0x61 \<le> n \<and> n \<le> 0x7A)
      then [c]
      else [CHR ''%'', hex_char (n div 16), hex_char (n mod 16)])"

definition form_encode :: "string \<Rightarrow> string" where
  "form_encode s = concat (map form_encode_byte s)"

definition URLSearchParams_toString :: "search_params \<Rightarrow> string" where
  "URLSearchParams_toString sp = join ''&'' (map (\<lambda>(k, v). form_encode k @ ''='' @ form_encode v) sp)"

section \<open>parseInt\<close>

text \<open>
  \<^verbatim>\<open>parseInt(s)\<close> with no radix: leading white space is skipped, a sign is read, a prefix
  \<^verbatim>\<open>0x\<close> selects base 16, and the longest run of digits is the value; no digit gives
  \<^verbatim>\<open>NaN\<close>.
\<close>

definition is_space :: "char \<Rightarrow> bool" where
  "is_space c = (let n = (of_char c :: nat) in n = 0x20 \<or> (0x09 \<le> n \<and> n \<le> 0x0D))"

definition digit_val :: "char \<Rightarrow> nat" where
  "digit_val c =
     (let n = (of_char c :: nat) in
      if 0x30 \<le> n \<and> n \<le> 0x39 then n - 0x30
      else if 0x61 \<le> n \<and> n \<le> 0x7A then n - 0x61 + 10
      else if 0x41 \<le> n \<and> n \<le> 0x5A then n - 0x41 + 10
      else 36)"

definition parse_digits :: "nat \<Rightarrow> string \<Rightarrow> number" where
  "parse_digits radix s =
     (let z = takeWhile (\<lambda>c. digit_val c < radix) s in
      if z = [] then NaN else Num (int (foldl (\<lambda>acc c. acc * radix + digit_val c) 0 z)))"

fun negate :: "number \<Rightarrow> number" where
  "negate NaN = NaN"
| "negate (Num i) = Num (- i)"

fun strip_radix_prefix :: "string \<Rightarrow> nat \<times> string" where
  "strip_radix_prefix (a # b # t) =
     (if a = CHR ''0'' \<and> (b = CHR ''x'' \<or> b = CHR ''X'') then (16, t) else (10, a # b # t))"
| "strip_radix_prefix s = (10, s)"

fun parse_signed :: "string \<Rightarrow> number" where
  "parse_signed (a # t) =
     (if a = CHR ''-'' then (case strip_radix_prefix t of (r, u) \<Rightarrow> negate (parse_digits r u))
      else if a = CHR ''+'' then (case strip_radix_prefix t of (r, u) \<Rightarrow> parse_digits r u)
      else (case strip_radix_prefix (a # t) of (r, u) \<Rightarrow> parse_digits r u))"
| "parse_signed [] = NaN"

definition parseInt :: "string \<Rightarrow> number" where
  "parseInt s = parse_signed (dropWhile is_space s)"

section \<open>Paginated collections\<close>

text \<open>\<^verbatim>\<open>WordPressApiResponse<T>\<close>; \<open>data\<close> is the parsed body as it came.\<close>

record paginated =
  data :: json
  total :: number
  totalPages :: number
  page :: int
  perPage :: int

text \<open>An optional number or string in a condition: absent, \<^verbatim>\<open>0\<close> and \<^verbatim>\<open>''\<close> are falsy.\<close>

fun num_truthy :: "int option \<Rightarrow> bool" where
  "num_truthy (Some n) = (n \<noteq> 0)"
| "num_truthy None = False"

fun str_truthy :: "string option \<Rightarrow> bool" where
  "str_truthy (Some s) = (s \<noteq> [])"
| "str_truthy None = False"

text \<open>\<^verbatim>\<open>x || d\<close> for an optional number and an optional string.\<close>

definition num_or :: "int option \<Rightarrow> int \<Rightarrow> int" where
  "num_or x d = (case x of Some n \<Rightarrow> if n \<noteq> 0 then n else d | None \<Rightarrow> d)"

definition str_or :: "string option \<Rightarrow> string \<Rightarrow> string" where
  "str_or x d = (case x of Some s \<Rightarrow> if s \<noteq> [] then s else d | None \<Rightarrow> d)"

text \<open>
  The part that \<^verbatim>\<open>getPosts\<close>, \<^verbatim>\<open>getPages\<close>, \<^verbatim>\<open>getCategories\<close> and \<^verbatim>\<open>search\<close> repeat
  word for word after building their URL: one \<^verbatim>\<open>fetch\<close> with no signal, the typed error
  on a response that is not ok, the body, and the totals read from the headers.
  \<open>what\<close> is the start of the error message.
\<close>

definition fetch_paginated ::
  "backend \<Rightarrow> world \<Rightarrow> string \<Rightarrow> string \<Rightarrow> int option \<Rightarrow> int option \<Rightarrow> paginated outcome \<times> world" where
  "fetch_paginated B w url what pg per =
     (case fetch B False None abort_error url w of
        (NeverSettles, w1) \<Rightarrow> (NeverSettles, w1)
      | (Thrown e, w1) \<Rightarrow> (Thrown e, w1)
      | (Returned r, w1) \<Rightarrow>
          (if \<not> ok r
           then (Thrown (WordPressApiError (what @ statusText r) (Some (status r)) None), w1)
           else (case body r of
                   None \<Rightarrow> (Thrown (JsError ''SyntaxError'' ''Unexpected token in JSON''), w1)
                 | Some items \<Rightarrow>
                     (Returned
                        \<lparr>data = items,
                         total = parseInt (str_or (headers_get r ''X-WP-Total'') ''0''),
                         totalPages = parseInt (str_or (headers_get r ''X-WP-TotalPages'') ''0''),
                         page = num_or pg 1,
                         perPage = num_or per 10\<rparr>,
                      w1))))"

section \<open>The operations\<close>

datatype post_orderby = By_date | By_title | By_menu_order
datatype sort_order = Asc | Desc
datatype post_status = Publish | Draft | Private
datatype category_orderby = By_name | By_slug | By_count
datatype search_type = Post | Page | Any

fun post_orderby_str :: "post_orderby \<Rightarrow> string" where
  "post_orderby_str By_date = ''date''"
| "post_orderby_str By_title = ''title''"
| "post_orderby_str By_menu_order = ''menu_order''"

fun sort_order_str :: "sort_order \<Rightarrow> string" where
  "sort_order_str Asc = ''asc''"
| "sort_order_str Desc = ''desc''"

fun post_status_str :: "post_status \<Rightarrow> string" where
  "post_status_str Publish = ''publish''"
| "post_status_str Draft = ''draft''"
| "post_status_str Private = ''private''"

fun category_orderby_str :: "category_orderby \<Rightarrow> string" where
  "category_orderby_str By_name = ''name''"
| "category_orderby_str By_slug = ''slug''"
| "category_orderby_str By_count = ''count''"

text \<open>
  A condition \<^verbatim>\<open>if (params.x) searchParams.append(name, x)\<close>: the pair is appended when
  the field is there and truthy.
\<close>

definition append_num :: "search_params \<Rightarrow> string \<Rightarrow> int option \<Rightarrow> search_params" where
  "append_num sp k x = (if num_truthy x then append sp k (int_toString (num_or x 0)) else sp)"

definition append_str :: "search_params \<Rightarrow> string \<Rightarrow> string option \<Rightarrow> search_params" where
  "append_str sp k x = (if str_truthy x then append sp k (str_or x []) else sp)"

text \<open>A field of an enumerated string type is truthy whenever it is there.\<close>

definition append_enum :: "search_params \<Rightarrow> string \<Rightarrow> ('a \<Rightarrow> string) \<Rightarrow> 'a option \<Rightarrow> search_params" where
  "append_enum sp k str x = (case x of Some v \<Rightarrow> append sp k (str v) | None \<Rightarrow> sp)"

subsection \<open>getPosts\<close>

record posts_params =
  posts_page :: "int option"
  posts_perPage :: "int option"
  posts_categories :: "string option"
  posts_tags :: "string option"
  posts_search :: "string option"
  posts_orderby :: "post_orderby option"
  posts_order :: "sort_order option"
  posts_status :: "post_status option"

definition getPosts_searchParams :: "posts_params \<Rightarrow> search_params" where
  "getPosts_searchParams params =
     (let sp = [];
          sp = append_num sp ''page'' (posts_page params);
          sp = append_num sp ''per_page'' (posts_perPage params);
          sp = append_str sp ''categories'' (posts_categories params);
          sp = append_str sp ''tags'' (posts_tags params);
          sp = append_str sp ''search'' (posts_search params);
          sp = append_enum sp ''orderby'' post_orderby_str (posts_orderby params);
          sp = append_enum sp ''order'' sort_order_str (posts_order params);
          sp = append_enum sp ''status'' post_status_str (posts_status params)
      in append sp ''_embed'' ''author,wp:featuredmedia,wp:term'')"

definition getPosts_queryString :: "posts_params \<Rightarrow> string" where
  "getPosts_queryString params = URLSearchParams_toString (getPosts_searchParams params)"

definition getPosts_url :: "client \<Rightarrow> posts_params \<Rightarrow> string" where
  "getPosts_url c params =
     (let queryString = getPosts_queryString params;
          endpoint = ''/posts'' @ (if queryString \<noteq> [] then ''?'' @ queryString else [])
      in baseUrl (config c) @ ''/wp-json/wp/v2'' @ endpoint)"

definition getPosts :: "backend \<Rightarrow> client \<Rightarrow> world \<Rightarrow> posts_params \<Rightarrow> paginated outcome \<times> world" where
  "getPosts B c w params =
     fetch_paginated B w (getPosts_url c params) ''Failed to fetch posts: ''
       (posts_page params) (posts_perPage params)"

subsection \<open>getPost and getPage\<close>

datatype post_identifier = Numeric int | Slug string

text \<open>
  The end of \<^verbatim>\<open>getPost\<close> and \<^verbatim>\<open>getPage\<close>: an array result must not be empty and gives
  its first element; any other result is returned as it is.
\<close>

definition first_of ::
  "string \<Rightarrow> json outcome \<times> client \<times> world \<Rightarrow> json outcome \<times> client \<times> world" where
  "first_of not_found res =
     (case res of
        (Returned (JArr []), c1, w1) \<Rightarrow> (Thrown (WordPressApiError not_found (Some 404) None), c1, w1)
      | (Returned (JArr (x # xs)), c1, w1) \<Rightarrow> (Returned x, c1, w1)
      | other \<Rightarrow> other)"

definition getPost_endpoint :: "post_identifier \<Rightarrow> string" where
  "getPost_endpoint ident =
     (case ident of
        Numeric n \<Rightarrow> ''/posts/'' @ int_toString n @ ''?_embed=author,wp:featuredmedia,wp:term''
      | Slug s \<Rightarrow> ''/posts?slug='' @ s @ ''&_embed=author,wp:featuredmedia,wp:term'')"

definition getPost :: "backend \<Rightarrow> client \<Rightarrow> world \<Rightarrow> post_identifier \<Rightarrow> json outcome \<times> client \<times> world" where
  "getPost B c w ident =
     first_of ''Post not found''
       (request B c w (getPost_endpoint ident) default_options default_cacheTtl)"



subsection \<open>getPages\<close>

record pages_params =
  pages_page :: "int option"
  pages_perPage :: "int option"
  pages_search :: "string option"
  pages_parent :: "int option"
  pages_orderby :: "post_orderby option"
  pages_order :: "sort_order option"
  pages_status :: "post_status option"

definition getPages_searchParams :: "pages_params \<Rightarrow> search_params" where
  "getPages_searchParams params =
     (let sp = [];
          sp = append_num sp ''page'' (pages_page params);
          sp = append_num sp ''per_page'' (pages_perPage params);
          sp = append_str sp ''search'' (pages_search params);
          sp = (case pages_parent params of
                  Some n \<Rightarrow> append sp ''parent'' (int_toString n)
                | None \<Rightarrow> sp);
          sp = append_enum sp ''orderby'' post_orderby_str (pages_orderby params);
          sp = append_enum sp ''order'' sort_order_str (pages_order params);
          sp = append_enum sp ''status'' post_status_str (pages_status params)
      in append sp ''_embed'' ''author,wp:featuredmedia'')"

definition getPages_url :: "client \<Rightarrow> pages_params \<Rightarrow> string" where
  "getPages_url c params =
     (let queryString = URLSearchParams_toString (getPages_searchParams params);
          endpoint = ''/pages'' @ (if queryString \<noteq> [] then ''?'' @ queryString else [])
      in baseUrl (config c) @ ''/wp-json/wp/v2'' @ endpoint)"

definition getPages :: "backend \<Rightarrow> client \<Rightarrow> world \<Rightarrow> pages_params \<Rightarrow> paginated outcome \<times> world" where
  "getPages B c w params =
     fetch_paginated B w (getPages_url c params) ''Failed to fetch pages: ''
       (pages_page params) (pages_perPage params)"

subsection \<open>getCategories\<close>

record categories_params =
  categories_page :: "int option"
  categories_perPage :: "int option"
  categories_search :: "string option"
  categories_orderby :: "category_orderby option"
  categories_order :: "sort_order option"
  categories_hide_empty :: "bool option"

definition getCategories_searchParams :: "categories_params \<Rightarrow> search_params" where
  "getCategories_searchParams params =
     (let sp = [];
          sp = append_num sp ''page'' (categories_page params);
          sp = append_num sp ''per_page'' (categories_perPage params);
          sp = append_str sp ''search'' (categories_search params);
          sp = append_enum sp ''orderby'' category_orderby_str (categories_orderby params);
          sp = append_enum sp ''order'' sort_order_str (categories_order params)
      in case categories_hide_empty params of
           Some b \<Rightarrow> append sp ''hide_empty'' (if b then ''true'' else ''false'')
         | None \<Rightarrow> sp)"

definition getCategories_url :: "client \<Rightarrow> categories_params \<Rightarrow> string" where
  "getCategories_url c params =
     (let queryString = URLSearchParams_toString (getCategories_searchParams params);
          endpoint = ''/categories'' @ (if queryString \<noteq> [] then ''?'' @ queryString else [])
      in baseUrl (config c) @ ''/wp-json/wp/v2'' @ endpoint)"

definition getCategories ::
  "backend \<Rightarrow> client \<Rightarrow> world \<Rightarrow> categories_params \<Rightarrow> paginated outcome \<times> world" where
  "getCategories B c w params =
     fetch_paginated B w (getCategories_url c params) ''Failed to fetch categories: ''
       (categories_page params) (categories_perPage params)"

subsection \<open>search\<close>

record search_options =
  search_type :: "search_type option"
  search_page :: "int option"
  search_perPage :: "int option"

definition search_url :: "client \<Rightarrow> string \<Rightarrow> search_options \<Rightarrow> string" where
  "search_url c query params =
     (let sp = append [] ''search'' query;
          sp = append_num sp ''page'' (search_page params);
          sp = append_num sp ''per_page'' (search_perPage params);
          endpoint = (if search_type params = Some Page then ''/pages'' else ''/posts'');
          queryString = URLSearchParams_toString sp
      in baseUrl (config c) @ ''/wp-json/wp/v2'' @ endpoint @ ''?'' @ queryString
           @ ''&_embed=author,wp:featuredmedia,wp:term'')"

definition search :: "backend \<Rightarrow> client \<Rightarrow> world \<Rightarrow> string \<Rightarrow> search_options \<Rightarrow> paginated outcome \<times> world" where
  "search B c w query params =
     fetch_paginated B w (search_url c query params) ''Search failed: ''
       (search_page params) (search_perPage params)"

subsection \<open>clearCache and healthCheck\<close>

definition clearCache :: "client \<Rightarrow> client" where
  "clearCache c = c\<lparr>cache := Map.empty\<rparr>"

datatype health = Healthy | Unhealthy

record health_status =
  health :: health
  health_message :: string

fun error_message :: "js_error \<Rightarrow> string" where
  "error_message (WordPressApiError m s c) = m"
| "error_message (JsError n m) = m"

definition timeout_error :: js_error where
  "timeout_error = JsError ''TimeoutError'' ''The operation was aborted due to timeout''"

text \<open>
  One \<^verbatim>\<open>fetch\<close> with \<^verbatim>\<open>AbortSignal.timeout(5000)\<close>, inside \<^verbatim>\<open>try\<close>; the \<^verbatim>\<open>catch\<close> block
  returns the unhealthy status with the error's message.
\<close>

definition healthCheck :: "backend \<Rightarrow> client \<Rightarrow> world \<Rightarrow> health_status outcome \<times> world" where
  "healthCheck B c w =
     (case fetch B False (Some (now w + 5000)) timeout_error
             (baseUrl (config c) @ ''/wp-json/wp/v2'') w of
        (Returned r, w1) \<Rightarrow>
          (if ok r
           then (Returned \<lparr>health = Healthy, health_message = ''WordPress API is accessible''\<rparr>, w1)
           else (Returned \<lparr>health = Unhealthy,
                   health_message = ''WordPress API returned '' @ digits (status r) @ '': ''
                                      @ statusText r\<rparr>, w1))
      | (Thrown e, w1) \<Rightarrow>
          (Returned \<lparr>health = Unhealthy,
             health_message = ''WordPress API is not accessible: '' @ error_message e\<rparr>, w1)
      | (NeverSettles, w1) \<Rightarrow> (NeverSettles, w1))"



section \<open>The query string, as the specification words it\<close>

text \<open>
  The fields of a posts filter in the order \<^verbatim>\<open>getPosts\<close> reads them, each with the text
  the query prints for it, \<open>None\<close> when the field is absent. \<open>present\<close> keeps exactly the
  fields that are there: the query "built from exactly the fields present in the filter".
\<close>

definition posts_fields :: "posts_params \<Rightarrow> (string \<times> string option) list" where
  "posts_fields params =
     [(''page'', map_option int_toString (posts_page params)),
      (''per_page'', map_option int_toString (posts_perPage params)),
      (''categories'', posts_categories params),
      (''tags'', posts_tags params),
      (''search'', posts_search params),
      (''orderby'', map_option post_orderby_str (posts_orderby params)),
      (''order'', map_option sort_order_str (posts_order params)),
      (''status'', map_option post_status_str (posts_status params))]"

definition present :: "(string \<times> string option) list \<Rightarrow> search_params" where
  "present fs = concat (map (\<lambda>(k, x). case x of Some v \<Rightarrow> [(k, v)] | None \<Rightarrow> []) fs)"

text \<open>The filter with every falsy field (\<^verbatim>\<open>0\<close>, \<^verbatim>\<open>''\<close>) taken out.\<close>

definition drop_falsy :: "posts_params \<Rightarrow> posts_params" where
  "drop_falsy params =
     params\<lparr>posts_page := (if num_truthy (posts_page params) then posts_page params else None),
            posts_perPage := (if num_truthy (posts_perPage params) then posts_perPage params else None),
            posts_categories :=
              (if str_truthy (posts_categories params) then posts_categories params else None),
            posts_tags := (if str_truthy (posts_tags params) then posts_tags params else None),
            posts_search := (if str_truthy (posts_search params) then posts_search params else None)\<rparr>"

definition embed_posts :: "string \<times> string" where
  "embed_posts = (''_embed'', ''author,wp:featuredmedia,wp:term'')"

section \<open>Scenarios\<close>

text \<open>Concrete clients, worlds, responses and backends on which the theorems are run.\<close>

definition site :: client where
  "site = new_client ''http://wp'' None None None"

definition start :: world where
  "start = \<lparr>now = 0, calls = []\<rparr>"

definition plain :: "nat \<Rightarrow> json option \<Rightarrow> response" where
  "plain s b = \<lparr>status = s, statusText = ''reason'', headers = Map.empty, body = b\<rparr>"

definition always :: "behaviour \<Rightarrow> backend" where
  "always b = (\<lambda>n url. b)"

definition no_fields :: posts_params where
  "no_fields =
     \<lparr>posts_page = None, posts_perPage = None, posts_categories = None, posts_tags = None,
      posts_search = None, posts_orderby = None, posts_order = None, posts_status = None\<rparr>"

definition no_page_fields :: pages_params where
  "no_page_fields =
     \<lparr>pages_page = None, pages_perPage = None, pages_search = None, pages_parent = None,
      pages_orderby = None, pages_order = None, pages_status = None\<rparr>"

definition no_category_fields :: categories_params where
  "no_category_fields =
     \<lparr>categories_page = None, categories_perPage = None, categories_search = None,
      categories_orderby = None, categories_order = None, categories_hide_empty = None\<rparr>"

definition no_search_options :: search_options where
  "no_search_options = \<lparr>search_type = None, search_page = None, search_perPage = None\<rparr>"

text \<open>A backend that answers every call after 10 ms with status 200, no headers and the given body.\<close>

definition serves :: "json \<Rightarrow> backend" where
  "serves d = always (Respond 10 (plain 200 (Some d)))"

text \<open>
  The first page of three posts, two per page: the body holds two records, the headers
  say 3 records on 2 pages.
\<close>

definition first_page :: response where
  "first_page =
     \<lparr>status = 200, statusText = ''OK'',
      headers = [''x-wp-total'' \<mapsto> ''3'', ''x-wp-totalpages'' \<mapsto> ''2''],
      body = Some (JArr [JNum 1, JNum 2])\<rparr>"

text \<open>
  Two post records, and a client whose cache holds the first for post 7, stored at time
  10 with the default TTL.
\<close>

definition post7 :: json where
  "post7 = JObj [(''id'', JNum 7), (''slug'', JStr ''hello''), (''status'', JStr ''publish'')]"

definition post7_edited :: json where
  "post7_edited = JObj [(''id'', JNum 7), (''slug'', JStr ''hello''), (''status'', JStr ''private'')]"

definition warm :: client where
  "warm = site\<lparr>cache := [cacheKey site (getPost_endpoint (Numeric 7)) default_options \<mapsto>
            \<lparr>entry_data = post7, timestamp = 10, ttl = default_cacheTtl\<rparr>]\<rparr>"

text \<open>The same site with caching switched off.\<close>

definition uncached :: client where
  "uncached = new_client ''http://wp'' None (Some False) None"

text \<open>
  Backends that fail: one answers every call with status 404 and the JSON body \<^verbatim>\<open>null\<close>;
  one answers 404 with the error object WordPress sends; one answers the first call with
  status 500 and never answers again; one never answers; one refuses every connection.
  And a client configured for five attempts.
\<close>

definition rest_error :: json where
  "rest_error = JObj [(''code'', JStr ''rest_post_invalid_id''), (''message'', JStr ''Invalid post ID.'')]"

definition null_404 :: backend where
  "null_404 = always (Respond 10 (plain 404 (Some JNull)))"

definition object_404 :: backend where
  "object_404 = always (Respond 10 (plain 404 (Some rest_error)))"

text \<open>
  A 404 whose \<^verbatim>\<open>message\<close> is an object with a property \<^verbatim>\<open>toString\<close> of its own:
  \<^verbatim>\<open>{"message":{"toString":1}}\<close>. The \<^verbatim>\<open>Error\<close> constructor cannot convert it to a string.
\<close>

definition unconvertible :: json where
  "unconvertible = JObj [(''message'', JObj [(''toString'', JNum 1)])]"

definition unconvertible_404 :: backend where
  "unconvertible_404 = always (Respond 10 (plain 404 (Some unconvertible)))"

definition stalls_after_500 :: backend where
  "stalls_after_500 = (\<lambda>n url. if n = 0 then Respond 10 (plain 500 None) else Hang)"

definition silent :: backend where
  "silent = always Hang"

definition refuses :: backend where
  "refuses = always (Fail 10 ''fetch failed'')"

definition five_tries :: client where
  "five_tries = new_client ''http://wp'' None None (Some 5)"


section \<open>fetch\<close>

lemma fetch_issues_call:
  "fetch B False dl reason url w = (res, w1) \<Longrightarrow> calls w1 = calls w @ [url]"
  by (auto simp: fetch_def Let_def split: behaviour.splits option.splits if_splits)

lemma fetch_deadline_settles:
  "fetch B False (Some d) reason url w = (res, w1) \<Longrightarrow> res \<noteq> NeverSettles"
  by (auto simp: fetch_def Let_def split: behaviour.splits option.splits if_splits)

lemma fetch_deadline_time:
  "fetch B False (Some d) reason url w = (res, w1) \<Longrightarrow> now w \<le> now w1 \<and> now w1 \<le> max (now w) d"
  by (auto simp: fetch_def Let_def split: behaviour.splits option.splits if_splits)

section \<open>The scenarios' responses\<close>

lemma serves_reply: "serves d n url = Respond 10 (plain 200 (Some d))"
  by (simp add: serves_def always_def)

lemma plain_ok: "ok (plain 200 b)"
  by (simp add: ok_def plain_def)

lemma plain_body: "body (plain s b) = b"
  by (simp add: plain_def)

lemma plain_no_header: "headers_get (plain s b) name = None"
  by (simp add: headers_get_def plain_def)

lemma first_page_total: "parseInt (str_or (headers_get first_page ''X-WP-Total'') ''0'') = Num 3"
  by code_simp

lemma first_page_totalPages:
  "parseInt (str_or (headers_get first_page ''X-WP-TotalPages'') ''0'') = Num 2"
  by code_simp

section \<open>healthCheck\<close>

text \<open>
  Claim C6. \<^verbatim>\<open>healthCheck\<close> issues exactly one network call, to the API root, whatever the
  configured \<open>retries\<close> and \<open>timeout\<close> are: its result does not depend on them. It always
  returns a status, at most 5000 ms after it was called, and never retries.
\<close>

theorem healthCheck_single_call:
  "(case healthCheck B c w of
      (res, w1) \<Rightarrow>
        (\<exists>hs. res = Returned hs)
        \<and> calls w1 = calls w @ [baseUrl (config c) @ ''/wp-json/wp/v2'']
        \<and> now w \<le> now w1 \<and> now w1 \<le> now w + 5000)
   \<and> healthCheck B (c\<lparr>config := (config c)\<lparr>retries := n, timeout := t\<rparr>\<rparr>) w = healthCheck B c w"
proof -
  obtain res w1 where f: "fetch B False (Some (now w + 5000)) timeout_error
      (baseUrl (config c) @ ''/wp-json/wp/v2'') w = (res, w1)"
    by (cases "fetch B False (Some (now w + 5000)) timeout_error
      (baseUrl (config c) @ ''/wp-json/wp/v2'') w") auto
  from fetch_issues_call[OF f] fetch_deadline_settles[OF f] fetch_deadline_time[OF f]
  have "calls w1 = calls w @ [baseUrl (config c) @ ''/wp-json/wp/v2'']"
    and "res \<noteq> NeverSettles" and "now w \<le> now w1" and "now w1 \<le> now w + 5000"
    by auto
  then have 1: "(case healthCheck B c w of
      (res, w1) \<Rightarrow>
        (\<exists>hs. res = Returned hs)
        \<and> calls w1 = calls w @ [baseUrl (config c) @ ''/wp-json/wp/v2'']
        \<and> now w \<le> now w1 \<and> now w1 \<le> now w + 5000)"
    using f by (cases res) (auto simp: healthCheck_def)
  have 2: "healthCheck B (c\<lparr>config := (config c)\<lparr>retries := n, timeout := t\<rparr>\<rparr>) w = healthCheck B c w"
    by (simp add: healthCheck_def)
  from 1 2 show ?thesis by blast
qed

section \<open>The query string of getPosts\<close>

lemma present_Cons:
  "present ((k, x) # fs) = (case x of Some v \<Rightarrow> [(k, v)] | None \<Rightarrow> []) @ present fs"
  by (simp add: present_def)

lemma present_Nil: "present [] = []"
  by (simp add: present_def)

lemma append_num_present:
  "append_num sp k x =
     sp @ present [(k, map_option int_toString (if num_truthy x then x else None))]"
  by (cases x) (auto simp: append_num_def append_def num_or_def present_def)

lemma append_str_present:
  "append_str sp k x = sp @ present [(k, if str_truthy x then x else None)]"
  by (cases x) (auto simp: append_str_def append_def str_or_def present_def)

lemma append_enum_present:
  "append_enum sp k str x = sp @ present [(k, map_option str x)]"
  by (cases x) (auto simp: append_enum_def append_def present_def)

text \<open>
  Claim C8, as stated, fails: a filter whose \<open>search\<close> field is present with the empty
  string gives a query without \<^verbatim>\<open>search\<close>, while the query built from exactly the fields
  present would be \<^verbatim>\<open>search=&_embed=...\<close>.
\<close>

theorem getPosts_query_present_counterexample:
  "posts_search (no_fields\<lparr>posts_search := Some ''''\<rparr>) \<noteq> None
   \<and> getPosts_queryString (no_fields\<lparr>posts_search := Some ''''\<rparr>)
       = ''_embed=author%2Cwp%3Afeaturedmedia%2Cwp%3Aterm''
   \<and> URLSearchParams_toString
         (present (posts_fields (no_fields\<lparr>posts_search := Some ''''\<rparr>)) @ [embed_posts])
       = ''search=&_embed=author%2Cwp%3Afeaturedmedia%2Cwp%3Aterm''
   \<and> getPosts_searchParams (no_fields\<lparr>posts_search := Some ''''\<rparr>)
       \<noteq> present (posts_fields (no_fields\<lparr>posts_search := Some ''''\<rparr>)) @ [embed_posts]"
  by code_simp

text \<open>
  Claim C8, amended. With no field set the query string is the \<^verbatim>\<open>_embed\<close> parameter
  alone. For every filter, the query is built, in a fixed order, from exactly the fields
  that are present with a truthy value (a number other than 0, a non-empty string),
  followed by \<^verbatim>\<open>_embed\<close>: absent fields and fields holding \<^verbatim>\<open>0\<close> or the empty string are
  left out, and nothing is defaulted.
\<close>

theorem getPosts_query_truthy_fields:
  "getPosts_queryString no_fields = ''_embed=author%2Cwp%3Afeaturedmedia%2Cwp%3Aterm''
   \<and> getPosts_searchParams params = present (posts_fields (drop_falsy params)) @ [embed_posts]
   \<and> getPosts_queryString params
       = URLSearchParams_toString (present (posts_fields (drop_falsy params)) @ [embed_posts])"
proof -
  have 1: "getPosts_queryString no_fields = ''_embed=author%2Cwp%3Afeaturedmedia%2Cwp%3Aterm''"
    by code_simp
  have 2: "getPosts_searchParams params = present (posts_fields (drop_falsy params)) @ [embed_posts]"
    by (simp add: getPosts_searchParams_def Let_def append_num_present append_str_present
        append_enum_present posts_fields_def drop_falsy_def present_Cons present_Nil append_def
        embed_posts_def)
  from 1 2 show ?thesis by (simp add: getPosts_queryString_def)
qed

section \<open>Paginated results\<close>

lemma parseInt_zero: "parseInt ''0'' = Num 0"
  by code_simp

lemma fetch_paginated_ok:
  assumes "B (length (calls w)) url = Respond lat r" and "ok r" and "body r = Some d"
  shows "fetch_paginated B w url what pg per =
           (Returned \<lparr>data = d,
                      total = parseInt (str_or (headers_get r ''X-WP-Total'') ''0''),
                      totalPages = parseInt (str_or (headers_get r ''X-WP-TotalPages'') ''0''),
                      page = num_or pg 1,
                      perPage = num_or per 10\<rparr>,
            w\<lparr>calls := calls w @ [url], now := now w + int lat\<rparr>)"
  using assms by (simp add: fetch_paginated_def fetch_def Let_def)

lemma fetch_paginated_Returned:
  assumes "fetch_paginated B w url what pg per = (Returned res, w1)"
  shows "\<exists>lat r. B (length (calls w)) url = Respond lat r \<and> ok r \<and> body r = Some (data res)
           \<and> total res = parseInt (str_or (headers_get r ''X-WP-Total'') ''0'')
           \<and> totalPages res = parseInt (str_or (headers_get r ''X-WP-TotalPages'') ''0'')
           \<and> page res = num_or pg 1 \<and> perPage res = num_or per 10
           \<and> w1 = w\<lparr>calls := calls w @ [url], now := now w + int lat\<rparr>"
  using assms
  by (auto simp: fetch_paginated_def fetch_def Let_def
      split: behaviour.splits option.splits if_splits)

lemma num_or_page: "(1 \<le> num_or pg 1) = (\<forall>n. pg = Some n \<longrightarrow> 0 \<le> n)"
  by (cases pg) (auto simp: num_or_def)

text \<open>
  Claim C10. When \<^verbatim>\<open>getPosts\<close>, \<^verbatim>\<open>getPages\<close>, \<^verbatim>\<open>getCategories\<close> or \<^verbatim>\<open>search\<close> receives a
  2xx response with a JSON body, the call returns that body as \<open>data\<close>; if the response
  has no \<^verbatim>\<open>X-WP-Total\<close> header the result's \<open>total\<close> is 0, and if it has no
  \<^verbatim>\<open>X-WP-TotalPages\<close> header the result's \<open>totalPages\<close> is 0.
\<close>

theorem missing_total_headers_give_zero:
  assumes "(url, run) \<in> {(getPosts_url c pp, getPosts B c w pp),
                         (getPages_url c gp, getPages B c w gp),
                         (getCategories_url c cp, getCategories B c w cp),
                         (search_url c q so, search B c w q so)}"
    and "B (length (calls w)) url = Respond lat r" and "ok r" and "body r = Some d"
  shows "\<exists>res w1. run = (Returned res, w1) \<and> data res = d
           \<and> (headers_get r ''X-WP-Total'' = None \<longrightarrow> total res = Num 0)
           \<and> (headers_get r ''X-WP-TotalPages'' = None \<longrightarrow> totalPages res = Num 0)"
proof -
  from assms(1) obtain what pg per where run: "run = fetch_paginated B w url what pg per"
    by (auto simp: getPosts_def getPages_def getCategories_def search_def)
  show ?thesis
    unfolding run fetch_paginated_ok[of B w url lat r d, OF assms(2-4)]
    by (simp add: str_or_def parseInt_zero)
qed

theorem missing_total_headers_give_zero_witness:
  "(\<exists>res w1. getPosts (serves (JArr [])) site start no_fields = (Returned res, w1)
       \<and> data res = JArr [] \<and> total res = Num 0 \<and> totalPages res = Num 0)
   \<and> (\<exists>res w1. getPages (serves (JArr [])) site start no_page_fields = (Returned res, w1)
       \<and> data res = JArr [] \<and> total res = Num 0 \<and> totalPages res = Num 0)
   \<and> (\<exists>res w1. getCategories (serves (JArr [])) site start no_category_fields = (Returned res, w1)
       \<and> data res = JArr [] \<and> total res = Num 0 \<and> totalPages res = Num 0)
   \<and> (\<exists>res w1. search (serves (JArr [])) site start ''remix'' no_search_options = (Returned res, w1)
       \<and> data res = JArr [] \<and> total res = Num 0 \<and> totalPages res = Num 0)"
proof -
  note inst = missing_total_headers_give_zero[where B = "serves (JArr [])" and c = site and w = start
      and pp = no_fields and gp = no_page_fields and cp = no_category_fields and q = "''remix''"
      and so = no_search_options and lat = 10 and r = "plain 200 (Some (JArr []))" and d = "JArr []",
      OF _ serves_reply plain_ok plain_body]
  have 1: "\<exists>res w1. getPosts (serves (JArr [])) site start no_fields = (Returned res, w1)
       \<and> data res = JArr [] \<and> total res = Num 0 \<and> totalPages res = Num 0"
    using inst[of "getPosts_url site no_fields" "getPosts (serves (JArr [])) site start no_fields"]
    by (simp add: plain_no_header)
  have 2: "\<exists>res w1. getPages (serves (JArr [])) site start no_page_fields = (Returned res, w1)
       \<and> data res = JArr [] \<and> total res = Num 0 \<and> totalPages res = Num 0"
    using inst[of "getPages_url site no_page_fields"
        "getPages (serves (JArr [])) site start no_page_fields"]
    by (simp add: plain_no_header)
  have 3: "\<exists>res w1. getCategories (serves (JArr [])) site start no_category_fields = (Returned res, w1)
       \<and> data res = JArr [] \<and> total res = Num 0 \<and> totalPages res = Num 0"
    using inst[of "getCategories_url site no_category_fields"
        "getCategories (serves (JArr [])) site start no_category_fields"]
    by (simp add: plain_no_header)
  have 4: "\<exists>res w1. search (serves (JArr [])) site start ''remix'' no_search_options = (Returned res, w1)
       \<and> data res = JArr [] \<and> total res = Num 0 \<and> totalPages res = Num 0"
    using inst[of "search_url site ''remix'' no_search_options"
        "search (serves (JArr [])) site start ''remix'' no_search_options"]
    by (simp add: plain_no_header)
  from 1 2 3 4 show ?thesis by blast
qed

text \<open>
  Claim C9, as stated, fails. A filter with page \<open>-1\<close> gives a result whose \<open>page\<close> is
  \<open>-1\<close>; a backend that sends three records for \<^verbatim>\<open>perPage = 2\<close> gives a result with three
  records and \<^verbatim>\<open>perPage = 2\<close>.
\<close>

theorem paginated_invariant_counterexample:
  "(\<exists>res w1. getPosts (serves (JArr [])) site start (no_fields\<lparr>posts_page := Some (- 1)\<rparr>)
        = (Returned res, w1) \<and> \<not> 1 \<le> page res)
   \<and> (\<exists>res w1 xs. getPosts (serves (JArr [JNum 1, JNum 2, JNum 3])) site start
                      (no_fields\<lparr>posts_perPage := Some 2\<rparr>) = (Returned res, w1)
        \<and> data res = JArr xs \<and> \<not> int (length xs) \<le> perPage res)"
  by (simp add: getPosts_def fetch_paginated_ok[OF serves_reply plain_ok plain_body] no_fields_def
      num_or_def)

text \<open>
  Claim C9, amended. Every result returned by \<^verbatim>\<open>getPosts\<close>, \<^verbatim>\<open>getPages\<close> and
  \<^verbatim>\<open>getCategories\<close> comes from one 2xx response: \<open>data\<close> is its body unchanged, \<open>total\<close>
  and \<open>totalPages\<close> are parsed from its headers \<^verbatim>\<open>X-WP-Total\<close> and \<^verbatim>\<open>X-WP-TotalPages\<close>,
  \<open>page\<close> is the filter's page (1 when absent or 0) and \<open>perPage\<close> the filter's
  \<^verbatim>\<open>perPage\<close> (10 when absent or 0). So \<open>page \<ge> 1\<close> holds exactly when the filter's page is
  absent or not negative, and \<open>data.length \<le> perPage\<close> exactly when the backend sent at
  most that many records: the client checks neither.
\<close>

theorem paginated_result_shape:
  assumes "(url, pg, per, run) \<in>
             {(getPosts_url c pp, posts_page pp, posts_perPage pp, getPosts B c w pp),
              (getPages_url c gp, pages_page gp, pages_perPage gp, getPages B c w gp),
              (getCategories_url c cp, categories_page cp, categories_perPage cp,
                 getCategories B c w cp)}"
    and "run = (Returned res, w1)"
  shows "\<exists>lat r. B (length (calls w)) url = Respond lat r \<and> ok r
           \<and> body r = Some (data res)
           \<and> total res = parseInt (str_or (headers_get r ''X-WP-Total'') ''0'')
           \<and> totalPages res = parseInt (str_or (headers_get r ''X-WP-TotalPages'') ''0'')
           \<and> page res = num_or pg 1
           \<and> perPage res = num_or per 10
           \<and> ((1 \<le> page res) = (\<forall>n. pg = Some n \<longrightarrow> 0 \<le> n))
           \<and> (\<forall>xs. body r = Some (JArr xs) \<longrightarrow>
                  (int (length xs) \<le> perPage res) = (int (length xs) \<le> num_or per 10))"
proof -
  from assms(1) obtain what where run: "run = fetch_paginated B w url what pg per"
    by (auto simp: getPosts_def getPages_def getCategories_def)
  from fetch_paginated_Returned[of B w url what pg per res w1] assms(2) run
  obtain lat r where *: "B (length (calls w)) url = Respond lat r" "ok r" "body r = Some (data res)"
    "total res = parseInt (str_or (headers_get r ''X-WP-Total'') ''0'')"
    "totalPages res = parseInt (str_or (headers_get r ''X-WP-TotalPages'') ''0'')"
    "page res = num_or pg 1" "perPage res = num_or per 10"
    by auto
  then show ?thesis using num_or_page[of pg] by auto
qed

theorem paginated_result_shape_witness:
  "\<exists>res w1. getPosts (always (Respond 10 first_page)) site start (no_fields\<lparr>posts_perPage := Some 2\<rparr>)
      = (Returned res, w1)
     \<and> data res = JArr [JNum 1, JNum 2] \<and> total res = Num 3 \<and> totalPages res = Num 2
     \<and> page res = 1 \<and> perPage res = 2"
proof -
  let ?B = "always (Respond 10 first_page)"
  let ?f = "no_fields\<lparr>posts_perPage := Some 2\<rparr>"
  have reply: "?B n u = Respond 10 first_page" for n u
    by (simp add: always_def)
  have okr: "ok first_page" and bodyr: "body first_page = Some (JArr [JNum 1, JNum 2])"
    by (simp_all add: first_page_def ok_def)
  obtain res w1 where run: "getPosts ?B site start ?f = (Returned res, w1)"
    by (simp add: getPosts_def fetch_paginated_ok[of ?B start _ 10 first_page, OF reply okr bodyr])
  from paginated_result_shape[where url = "getPosts_url site ?f" and pg = "posts_page ?f"
      and per = "posts_perPage ?f" and run = "getPosts ?B site start ?f" and c = site and pp = ?f
      and B = ?B and w = start and res = res and ?w1.0 = w1, OF _ run]
  obtain lat r where r: "?B (length (calls start)) (getPosts_url site ?f) = Respond lat r"
    and shape: "body r = Some (data res)"
      "total res = parseInt (str_or (headers_get r ''X-WP-Total'') ''0'')"
      "totalPages res = parseInt (str_or (headers_get r ''X-WP-TotalPages'') ''0'')"
      "page res = num_or (posts_page ?f) 1" "perPage res = num_or (posts_perPage ?f) 10"
    by auto
  from r have "r = first_page" by (simp add: always_def)
  with shape have "data res = JArr [JNum 1, JNum 2] \<and> total res = Num 3 \<and> totalPages res = Num 2
     \<and> page res = 1 \<and> perPage res = 2"
    by (simp add: first_page_total first_page_totalPages bodyr no_fields_def num_or_def)
  with run show ?thesis by blast
qed

section \<open>The retry loop\<close>

lemma try_block_calls:
  "try_block B url ctl w = (tr, ctl1, w1) \<Longrightarrow>
     calls w1 = calls w @ (if aborted ctl then [] else [url])"
  by (auto simp: try_block_def fetch_def Let_def
      split: behaviour.splits option.splits if_splits prod.splits outcome.splits)

lemma try_block_Completed:
  "try_block B url ctl w = (Completed d, ctl1, w1) \<Longrightarrow>
     \<exists>lat r. B (length (calls w)) url = Respond lat r \<and> ok r \<and> body r = Some d
       \<and> w1 = w\<lparr>calls := calls w @ [url], now := now w + int lat\<rparr>"
  by (auto simp: try_block_def fetch_def Let_def
      split: behaviour.splits option.splits if_splits prod.splits outcome.splits)

lemma sleep_calls: "sleep ms ctl w = (ctl1, w1) \<Longrightarrow> calls w1 = calls w"
  by (auto simp: sleep_def Let_def)

lemma retry_loop_exhausted:
  "\<not> a < retries (config c) \<Longrightarrow>
     retry_loop B url key cb t a le ctl c w =
       (Thrown (case le of Some e \<Rightarrow> e
                | None \<Rightarrow> WordPressApiError ''Request failed after retries'' None None), c, w)"
  by (simp add: retry_loop.simps[of B url key cb t a])

lemma retry_loop_step:
  "a < retries (config c) \<Longrightarrow> try_block B url ctl w = (tr, ctl', wa) \<Longrightarrow>
     retry_loop B url key cb t a le ctl c w =
       (case tr of
          Stuck \<Rightarrow> (NeverSettles, c, wa)
        | Completed d \<Rightarrow>
            (Returned d,
             (if cb then c\<lparr>cache := (cache c)(key \<mapsto>
                     \<lparr>entry_data = d, timestamp = now wa, ttl = t\<rparr>)\<rparr> else c),
             wa)
        | Caught e \<Rightarrow>
            (if is_client_error e then (Thrown e, c, wa)
             else if a + 1 < retries (config c) then
               (case sleep (2 ^ a * 1000) ctl' wa of
                  (ctl2, w2) \<Rightarrow> retry_loop B url key cb t (Suc a) (Some e) ctl2 c w2)
             else retry_loop B url key cb t (Suc a) (Some e) ctl' c wa))"
  by (cases tr) (simp_all add: retry_loop.simps[of B url key cb t a])

lemma retry_loop_cases [consumes 1, case_names exhausted stuck completed terminal retry last]:
  assumes "retry_loop B url key cb t a le ctl c w = (res, c1, w1)"
  obtains
    "\<not> a < retries (config c)"
    "res = Thrown (case le of Some e \<Rightarrow> e
                   | None \<Rightarrow> WordPressApiError ''Request failed after retries'' None None)"
    "c1 = c" "w1 = w"
  | ctl' where "a < retries (config c)" "try_block B url ctl w = (Stuck, ctl', w1)"
      "res = NeverSettles" "c1 = c"
  | d ctl' where "a < retries (config c)" "try_block B url ctl w = (Completed d, ctl', w1)"
      "res = Returned d"
      "c1 = (if cb then c\<lparr>cache := (cache c)(key \<mapsto>
               \<lparr>entry_data = d, timestamp = now w1, ttl = t\<rparr>)\<rparr> else c)"
  | e ctl' where "a < retries (config c)" "try_block B url ctl w = (Caught e, ctl', w1)"
      "is_client_error e" "res = Thrown e" "c1 = c"
  | e ctl' wa ctl2 w2 where "a < retries (config c)" "try_block B url ctl w = (Caught e, ctl', wa)"
      "\<not> is_client_error e" "a + 1 < retries (config c)"
      "sleep (2 ^ a * 1000) ctl' wa = (ctl2, w2)"
      "retry_loop B url key cb t (Suc a) (Some e) ctl2 c w2 = (res, c1, w1)"
  | e ctl' wa where "a < retries (config c)" "try_block B url ctl w = (Caught e, ctl', wa)"
      "\<not> is_client_error e" "\<not> a + 1 < retries (config c)"
      "retry_loop B url key cb t (Suc a) (Some e) ctl' c wa = (res, c1, w1)"
proof (cases "a < retries (config c)")
  case False
  from assms have "res = Thrown (case le of Some e \<Rightarrow> e
                   | None \<Rightarrow> WordPressApiError ''Request failed after retries'' None None)
      \<and> c1 = c \<and> w1 = w"
    unfolding retry_loop_exhausted[OF False] by simp
  with False that(1) show ?thesis by blast
next
  case True
  obtain tr ctl' wa where tb: "try_block B url ctl w = (tr, ctl', wa)"
    by (cases "try_block B url ctl w") auto
  note eq = assms[unfolded retry_loop_step[OF True tb]]
  show ?thesis
  proof (cases tr)
    case Stuck
    with eq have "res = NeverSettles" "c1 = c" "wa = w1" by simp_all
    with True tb Stuck show ?thesis by (auto intro: that(2))
  next
    case (Completed d)
    with eq have "res = Returned d" "wa = w1"
      "c1 = (if cb then c\<lparr>cache := (cache c)(key \<mapsto>
               \<lparr>entry_data = d, timestamp = now w1, ttl = t\<rparr>)\<rparr> else c)"
      by auto
    with True tb Completed show ?thesis by (auto intro: that(3))
  next
    case (Caught e)
    obtain ctl2 w2 where sl: "sleep (2 ^ a * 1000) ctl' wa = (ctl2, w2)"
      by (cases "sleep (2 ^ a * 1000) ctl' wa") auto
    show ?thesis
    proof (cases "is_client_error e")
      case True
      with eq Caught have "res = Thrown e" "c1 = c" "wa = w1" by simp_all
      with \<open>a < retries (config c)\<close> tb Caught True show ?thesis by (auto intro: that(4))
    next
      case nce: False
      show ?thesis
      proof (cases "a + 1 < retries (config c)")
        case True
        with eq Caught nce sl
        have "retry_loop B url key cb t (Suc a) (Some e) ctl2 c w2 = (res, c1, w1)" by simp
        with \<open>a < retries (config c)\<close> tb Caught nce True sl show ?thesis
          by (auto intro: that(5))
      next
        case False
        with eq Caught nce
        have "retry_loop B url key cb t (Suc a) (Some e) ctl' c wa = (res, c1, w1)" by simp
        with \<open>a < retries (config c)\<close> tb Caught nce False show ?thesis
          by (auto intro: that(6))
      qed
    qed
  qed
qed

lemma retry_loop_calls:
  "retry_loop B url key cb t a le ctl c w = (res, c1, w1) \<Longrightarrow>
     \<exists>k. calls w1 = calls w @ replicate k url \<and> k \<le> retries (config c) - a"
proof (induction "retries (config c) - a" arbitrary: a le ctl w)
  case 0
  from "0.prems" show ?case
  proof (cases rule: retry_loop_cases)
    case exhausted
    then show ?thesis by simp
  qed (use 0 in simp_all)
next
  case (Suc n)
  from Suc.prems show ?case
  proof (cases rule: retry_loop_cases)
    case exhausted
    then show ?thesis by simp
  next
    case (stuck ctl')
    from try_block_calls[OF stuck(2)] stuck(1) show ?thesis
      by (cases "aborted ctl") (auto intro: exI[of _ 0] exI[of _ 1])
  next
    case (completed d ctl')
    from try_block_calls[OF completed(2)] completed(1) show ?thesis
      by (cases "aborted ctl") (auto intro: exI[of _ 0] exI[of _ 1])
  next
    case (terminal e ctl')
    from try_block_calls[OF terminal(2)] terminal(1) show ?thesis
      by (cases "aborted ctl") (auto intro: exI[of _ 0] exI[of _ 1])
  next
    case (retry e ctl' wa ctl2 w2)
    from Suc.hyps(2) have "n = retries (config c) - Suc a" by simp
    from Suc.hyps(1)[OF this retry(6)] obtain k where
      k: "calls w1 = calls w2 @ replicate k url" "k \<le> retries (config c) - Suc a" by blast
    from try_block_calls[OF retry(2)] sleep_calls[OF retry(5)] k retry(1) show ?thesis
      by (cases "aborted ctl")
        (auto intro: exI[of _ k] exI[of _ "Suc k"] simp: replicate_app_Cons_same)
  next
    case (last e ctl' wa)
    from Suc.hyps(2) have "n = retries (config c) - Suc a" by simp
    from Suc.hyps(1)[OF this last(5)] obtain k where
      k: "calls w1 = calls wa @ replicate k url" "k \<le> retries (config c) - Suc a" by blast
    from try_block_calls[OF last(2)] k last(1) show ?thesis
      by (cases "aborted ctl")
        (auto intro: exI[of _ k] exI[of _ "Suc k"] simp: replicate_app_Cons_same)
  qed
qed


lemma try_block_aborted:
  "aborted ctl \<Longrightarrow> try_block B url ctl w = (Caught abort_error, run_timers ctl w, w)"
  by (simp add: try_block_def fetch_def)

lemma try_block_response:
  assumes "\<not> aborted ctl" and "B (length (calls w)) url = Respond lat r" and "in_time ctl w lat"
  shows "try_block B url ctl w =
           ((if \<not> ok r then Caught (error_from_response r)
             else case body r of
                    None \<Rightarrow> Caught (JsError ''SyntaxError'' ''Unexpected token in JSON'')
                  | Some d \<Rightarrow> Completed d),
            ctl\<lparr>timer := None\<rparr>,
            w\<lparr>calls := calls w @ [url], now := now w + int lat\<rparr>)"
  using assms
  by (auto simp: try_block_def fetch_def Let_def in_time_def split: option.splits)

lemma retry_loop_cache:
  "retry_loop B url key cb t a le ctl c w = (res, c1, w1) \<Longrightarrow>
     c1 = (case res of
             Returned d \<Rightarrow>
               if cb then c\<lparr>cache := (cache c)(key \<mapsto>
                     \<lparr>entry_data = d, timestamp = now w1, ttl = t\<rparr>)\<rparr> else c
           | _ \<Rightarrow> c)"
proof (induction "retries (config c) - a" arbitrary: a le ctl w)
  case 0
  from "0.prems" show ?case
    by (cases rule: retry_loop_cases) (use 0 in simp_all)
next
  case (Suc n)
  from Suc.hyps(2) have n: "n = retries (config c) - Suc a" by simp
  from Suc.prems show ?case
    by (cases rule: retry_loop_cases) (simp_all add: Suc.hyps(1)[OF n])
qed

lemma retry_loop_Returned:
  "retry_loop B url key cb t a le ctl c w = (Returned d, c1, w1) \<Longrightarrow>
     \<exists>n lat r. length (calls w) \<le> n \<and> Suc n = length (calls w1)
        \<and> B n url = Respond lat r \<and> ok r \<and> body r = Some d"
proof (induction "retries (config c) - a" arbitrary: a le ctl w)
  case 0
  from "0.prems" show ?case
    by (cases rule: retry_loop_cases) (use 0 in simp_all)
next
  case (Suc n)
  from Suc.hyps(2) have n: "n = retries (config c) - Suc a" by simp
  from Suc.prems show ?case
  proof (cases rule: retry_loop_cases)
    case (completed d' ctl')
    with try_block_Completed[of B url ctl w d' ctl' w1] show ?thesis by auto
  next
    case (retry e ctl' wa ctl2 w2)
    from Suc.hyps(1)[OF n retry(6)] obtain m lat r where
      "length (calls w2) \<le> m" "Suc m = length (calls w1)" "B m url = Respond lat r" "ok r"
      "body r = Some d" by blast
    with try_block_calls[OF retry(2)] sleep_calls[OF retry(5)] show ?thesis
      by (intro exI[of _ m] exI[of _ lat] exI[of _ r]) (auto split: if_splits)
  next
    case (last e ctl' wa)
    from Suc.hyps(1)[OF n last(5)] obtain m lat r where
      "length (calls wa) \<le> m" "Suc m = length (calls w1)" "B m url = Respond lat r" "ok r"
      "body r = Some d" by blast
    with try_block_calls[OF last(2)] show ?thesis
      by (intro exI[of _ m] exI[of _ lat] exI[of _ r]) (auto split: if_splits)
  qed simp_all
qed

lemma retry_loop_first_call:
  assumes "retry_loop B url key cb t a le ctl c w = (res, c1, w1)"
    and "a < retries (config c)" and "\<not> aborted ctl"
  shows "\<exists>rest. calls w1 = calls w @ url # rest"
  using assms(1)
proof (cases rule: retry_loop_cases)
  case exhausted
  with assms(2) show ?thesis by simp
next
  case (stuck ctl')
  with try_block_calls[OF stuck(2)] assms(3) show ?thesis by simp
next
  case (completed d ctl')
  with try_block_calls[OF completed(2)] assms(3) show ?thesis by simp
next
  case (terminal e ctl')
  with try_block_calls[OF terminal(2)] assms(3) show ?thesis by simp
next
  case (retry e ctl' wa ctl2 w2)
  from retry_loop_calls[OF retry(6)] obtain k where "calls w1 = calls w2 @ replicate k url" by blast
  with try_block_calls[OF retry(2)] sleep_calls[OF retry(5)] assms(3) show ?thesis by simp
next
  case (last e ctl' wa)
  from retry_loop_calls[OF last(5)] obtain k where "calls w1 = calls wa @ replicate k url" by blast
  with try_block_calls[OF last(2)] assms(3) show ?thesis by simp
qed


section \<open>request and the cache\<close>

lemma request_hit:
  assumes "cacheable c opts" and "cache c (cacheKey c ep opts) = Some e"
    and "now w - timestamp e < ttl e"
  shows "request B c w ep opts t = (Returned (entry_data e), c, w)"
  using assms by (simp add: request_def)

lemma request_miss:
  assumes "\<not> cache_hit c w ep opts"
  shows "request B c w ep opts t =
           retry_loop B (request_url c ep) (cacheKey c ep opts) (cacheable c opts) t 0 None
             (new_controller c w) c w"
  using assms by (auto simp: request_def cache_hit_def split: option.splits)

lemma request_success:
  assumes "\<not> cache_hit c w ep opts" and "0 < retries (config c)"
    and "B (length (calls w)) (request_url c ep) = Respond lat r" and "lat < timeout (config c)"
    and "ok r" and "body r = Some d"
  shows "request B c w ep opts t =
           (Returned d,
            (if cacheable c opts
             then c\<lparr>cache := (cache c)(cacheKey c ep opts \<mapsto>
                    \<lparr>entry_data = d, timestamp = now w + int lat, ttl = t\<rparr>)\<rparr>
             else c),
            w\<lparr>calls := calls w @ [request_url c ep], now := now w + int lat\<rparr>)"
proof -
  have it: "in_time (new_controller c w) w lat"
    using assms(4) by (simp add: in_time_def new_controller_def)
  have na: "\<not> aborted (new_controller c w)" by (simp add: new_controller_def)
  show ?thesis
    unfolding request_miss[OF assms(1)]
      retry_loop_step[OF assms(2) try_block_response[of "new_controller c w" B w _ lat r, OF na assms(3) it]]
    using assms(5,6) by simp
qed

lemma request_again:
  assumes "cacheable c opts" and "0 < t" and "request B c w ep opts t = (Returned d, c1, w1)"
  shows "request B' c1 w1 ep opts t' = (Returned d, c1, w1)"
proof (cases "cache_hit c w ep opts")
  case True
  then obtain e where e: "cache c (cacheKey c ep opts) = Some e" "now w - timestamp e < ttl e"
    by (auto simp: cache_hit_def split: option.splits)
  from assms(3) request_hit[OF assms(1) e, of B t] have "d = entry_data e" "c1 = c" "w1 = w"
    by simp_all
  with request_hit[OF assms(1) e, of B' t'] show ?thesis by simp
next
  case False
  from assms(3) have rl: "retry_loop B (request_url c ep) (cacheKey c ep opts) (cacheable c opts) t 0 None
             (new_controller c w) c w = (Returned d, c1, w1)"
    unfolding request_miss[OF False] .
  from retry_loop_cache[OF rl] assms(1)
  have c1: "c1 = c\<lparr>cache := (cache c)(cacheKey c ep opts \<mapsto>
                    \<lparr>entry_data = d, timestamp = now w1, ttl = t\<rparr>)\<rparr>" by simp
  have k: "cacheKey c1 ep opts = cacheKey c ep opts" and cb: "cacheable c1 opts"
    using assms(1) by (simp_all add: c1 cacheKey_def request_url_def cacheable_def)
  have "cache c1 (cacheKey c1 ep opts) = Some \<lparr>entry_data = d, timestamp = now w1, ttl = t\<rparr>"
    unfolding k by (simp add: c1)
  from request_hit[OF cb this, of w1 B' t'] assms(2) show ?thesis by simp
qed

lemma request_uncached:
  assumes "\<not> cacheable c opts" and "request B c w ep opts t = (res, c1, w1)"
  shows "c1 = c"
proof -
  from assms(1) have "\<not> cache_hit c w ep opts" by (simp add: cache_hit_def)
  note rl = assms(2)[unfolded request_miss[OF this]]
  from retry_loop_cache[OF rl] assms(1) show ?thesis by (cases res) simp_all
qed

lemma request_first_call:
  assumes "\<not> cache_hit c w ep opts" and "0 < retries (config c)"
    and "request B c w ep opts t = (res, c1, w1)"
  shows "\<exists>rest. calls w1 = calls w @ request_url c ep # rest"
  using retry_loop_first_call[OF assms(3)[unfolded request_miss[OF assms(1)]] assms(2)]
  by (simp add: new_controller_def)

text \<open>
  After \<^verbatim>\<open>clearCache\<close> a request finds no entry: it issues a network call even within the
  TTL of what was cached before.
\<close>

lemma clearCache_forces_call:
  assumes "0 < retries (config c)"
    and "request B (clearCache c) w ep opts t = (res, c1, w1)"
  shows "\<exists>rest. calls w1 = calls w @ request_url c ep # rest"
proof -
  have "\<not> cache_hit (clearCache c) w ep opts"
    by (simp add: cache_hit_def clearCache_def)
  from request_first_call[OF this _ assms(2)] assms(1) show ?thesis
    by (simp add: clearCache_def request_url_def)
qed

section \<open>Cache expiry\<close>

lemma site_config:
  "baseUrl (config site) = ''http://wp''" "timeout (config site) = 10000"
  "cacheEnabled (config site)" "retries (config site) = 3" "cache site = Map.empty"
  by (simp_all add: site_def new_client_def)

lemma warm_config: "config warm = config site"
  by (simp add: warm_def)

lemma warm_key: "cacheKey warm ep opts = cacheKey site ep opts"
  by (simp add: cacheKey_def request_url_def warm_config)

lemma warm_entry:
  "cache warm (cacheKey warm (getPost_endpoint (Numeric 7)) default_options)
     = Some \<lparr>entry_data = post7, timestamp = 10, ttl = default_cacheTtl\<rparr>"
  by (simp add: warm_key) (simp add: warm_def)

lemma default_cacheable: "cacheable c default_options = cacheEnabled (config c)"
  by (simp add: cacheable_def default_options_def)

text \<open>
  Claim C5. Let the cache hold an entry under the key of a request. While
  \<open>now - timestamp < ttl\<close> (and caching applies to the request) the entry is reused: its
  data is returned and no network call is made. Once \<open>now - timestamp \<ge> ttl\<close>, the same
  request, whose key is identical, issues a network call to the same URL again (the
  client makes at least one attempt, \<open>retries \<ge> 1\<close>), and when it returns a value the
  entry under the key is overwritten with that value, the time of the response and the
  request's TTL.
\<close>

theorem stale_entry_refetched:
  assumes "cache c (cacheKey c ep opts) = Some e"
    and "request B c w ep opts t = (res, c1, w1)"
  shows "(cacheable c opts \<and> now w - timestamp e < ttl e \<longrightarrow>
            res = Returned (entry_data e) \<and> c1 = c \<and> w1 = w)
       \<and> (ttl e \<le> now w - timestamp e \<and> 0 < retries (config c) \<longrightarrow>
            (\<exists>rest. calls w1 = calls w @ request_url c ep # rest))
       \<and> (ttl e \<le> now w - timestamp e \<and> cacheable c opts \<longrightarrow>
            (\<forall>d. res = Returned d \<longrightarrow>
               cache c1 (cacheKey c ep opts)
                 = Some \<lparr>entry_data = d, timestamp = now w1, ttl = t\<rparr>))"
proof -
  have 1: "res = Returned (entry_data e) \<and> c1 = c \<and> w1 = w"
    if "cacheable c opts \<and> now w - timestamp e < ttl e"
    using that request_hit[of c opts ep e w B t] assms by simp
  have miss: "\<not> cache_hit c w ep opts" if "ttl e \<le> now w - timestamp e"
    using that assms(1) by (simp add: cache_hit_def)
  have 2: "\<exists>rest. calls w1 = calls w @ request_url c ep # rest"
    if "ttl e \<le> now w - timestamp e \<and> 0 < retries (config c)"
    using that request_first_call[OF miss _ assms(2)] by simp
  have 3: "cache c1 (cacheKey c ep opts) = Some \<lparr>entry_data = d, timestamp = now w1, ttl = t\<rparr>"
    if "ttl e \<le> now w - timestamp e \<and> cacheable c opts" and "res = Returned d" for d
  proof -
    from that(1) have m: "\<not> cache_hit c w ep opts" by (simp add: miss)
    note rl = assms(2)[unfolded request_miss[OF m]]
    from retry_loop_cache[OF rl] that show ?thesis by simp
  qed
  from 1 2 3 show ?thesis by blast
qed

theorem stale_entry_refetched_witness:
  "(\<exists>c1 w1 rest.
      request (serves post7_edited) warm \<lparr>now = 300010, calls = []\<rparr> (getPost_endpoint (Numeric 7))
        default_options default_cacheTtl = (Returned post7_edited, c1, w1)
      \<and> calls w1 = request_url warm (getPost_endpoint (Numeric 7)) # rest
      \<and> cache c1 (cacheKey warm (getPost_endpoint (Numeric 7)) default_options)
          = Some \<lparr>entry_data = post7_edited, timestamp = 300020, ttl = default_cacheTtl\<rparr>)
   \<and> request (serves post7_edited) warm \<lparr>now = 300009, calls = []\<rparr> (getPost_endpoint (Numeric 7))
        default_options default_cacheTtl
       = (Returned post7, warm, \<lparr>now = 300009, calls = []\<rparr>)"
proof -
  let ?ep = "getPost_endpoint (Numeric 7)"
  let ?B = "serves post7_edited"
  let ?late = "\<lparr>now = 300010, calls = []\<rparr>"
  let ?early = "\<lparr>now = 300009, calls = []\<rparr>"
  have cb: "cacheable warm default_options"
    by (simp add: default_cacheable warm_config site_config)
  have miss: "\<not> cache_hit warm ?late ?ep default_options"
    by (simp add: cache_hit_def warm_entry default_cacheTtl_def)
  obtain c1 w1 where run:
    "request ?B warm ?late ?ep default_options default_cacheTtl = (Returned post7_edited, c1, w1)"
    and w1: "now w1 = 300020"
    using request_success[of warm ?late ?ep default_options ?B 10 "plain 200 (Some post7_edited)"
        post7_edited default_cacheTtl, OF miss _ serves_reply _ plain_ok plain_body]
    by (simp add: warm_config site_config)
  from stale_entry_refetched[OF warm_entry run]
  have late: "(\<exists>rest. calls w1 = request_url warm ?ep # rest)
     \<and> cache c1 (cacheKey warm ?ep default_options)
          = Some \<lparr>entry_data = post7_edited, timestamp = 300020, ttl = default_cacheTtl\<rparr>"
    using cb w1 by (simp add: default_cacheTtl_def warm_config site_config)
  obtain res c2 w2 where run2:
    "request ?B warm ?early ?ep default_options default_cacheTtl = (res, c2, w2)"
    by (cases "request ?B warm ?early ?ep default_options default_cacheTtl") auto
  from stale_entry_refetched[OF warm_entry run2] cb
  have "res = Returned post7 \<and> c2 = warm \<and> w2 = ?early"
    by (simp add: default_cacheTtl_def)
  with run2 late run show ?thesis by auto
qed

section \<open>getPost by slug\<close>

lemma first_of_array:
  "first_of msg (Returned (JArr xs), c1, w1) =
     ((case xs of [] \<Rightarrow> Thrown (WordPressApiError msg (Some 404) None) | p # rest \<Rightarrow> Returned p),
      c1, w1)"
  by (cases xs) (simp_all add: first_of_def)

lemma site_no_hit: "\<not> cache_hit site w ep opts"
  by (simp add: cache_hit_def site_config)

text \<open>
  Claim C4. For a slug \<open>s\<close>, \<^verbatim>\<open>getPost\<close> requests the collection endpoint
  \<^verbatim>\<open>/posts?slug=s&_embed=...\<close>. When that request yields an array, an empty array makes
  \<^verbatim>\<open>getPost\<close> throw the typed error \<^verbatim>\<open>Post not found\<close> with status 404, and a non-empty
  array makes it return the first element unchanged. In particular, when the cache has
  no fresh entry and the backend answers the call in time with a 2xx response whose body
  is an array, that is the outcome, after exactly one network call to the collection URL.
\<close>

theorem getPost_slug_first_or_404:
  "(request B c w (''/posts?slug='' @ s @ ''&_embed=author,wp:featuredmedia,wp:term'')
        default_options default_cacheTtl = (Returned (JArr xs), c1, w1)
      \<longrightarrow> getPost B c w (Slug s) =
            ((case xs of
                [] \<Rightarrow> Thrown (WordPressApiError ''Post not found'' (Some 404) None)
              | p # rest \<Rightarrow> Returned p), c1, w1))
   \<and> (\<not> cache_hit c w (getPost_endpoint (Slug s)) default_options \<and> 0 < retries (config c)
        \<and> B (length (calls w))
              (baseUrl (config c) @ ''/wp-json/wp/v2/posts?slug='' @ s
                 @ ''&_embed=author,wp:featuredmedia,wp:term'') = Respond lat r
        \<and> lat < timeout (config c) \<and> ok r \<and> body r = Some (JArr ys)
      \<longrightarrow> (\<exists>c2. getPost B c w (Slug s) =
            ((case ys of
                [] \<Rightarrow> Thrown (WordPressApiError ''Post not found'' (Some 404) None)
              | p # rest \<Rightarrow> Returned p),
             c2,
             w\<lparr>calls := calls w @ [baseUrl (config c) @ ''/wp-json/wp/v2/posts?slug='' @ s
                 @ ''&_embed=author,wp:featuredmedia,wp:term''],
               now := now w + int lat\<rparr>)))"
proof -
  have ep: "getPost_endpoint (Slug s) = ''/posts?slug='' @ s @ ''&_embed=author,wp:featuredmedia,wp:term''"
    by (simp add: getPost_endpoint_def)
  have url: "request_url c (getPost_endpoint (Slug s))
      = baseUrl (config c) @ ''/wp-json/wp/v2/posts?slug='' @ s
                 @ ''&_embed=author,wp:featuredmedia,wp:term''"
    by (simp add: request_url_def ep)
  have 1: "getPost B c w (Slug s) =
            ((case xs of
                [] \<Rightarrow> Thrown (WordPressApiError ''Post not found'' (Some 404) None)
              | p # rest \<Rightarrow> Returned p), c1, w1)"
    if "request B c w (''/posts?slug='' @ s @ ''&_embed=author,wp:featuredmedia,wp:term'')
        default_options default_cacheTtl = (Returned (JArr xs), c1, w1)"
    using that unfolding getPost_def ep by (simp add: first_of_array)
  have 2: "\<exists>c2. getPost B c w (Slug s) =
            ((case ys of
                [] \<Rightarrow> Thrown (WordPressApiError ''Post not found'' (Some 404) None)
              | p # rest \<Rightarrow> Returned p),
             c2,
             w\<lparr>calls := calls w @ [baseUrl (config c) @ ''/wp-json/wp/v2/posts?slug='' @ s
                 @ ''&_embed=author,wp:featuredmedia,wp:term''],
               now := now w + int lat\<rparr>)"
    if h: "\<not> cache_hit c w (getPost_endpoint (Slug s)) default_options \<and> 0 < retries (config c)
        \<and> B (length (calls w))
              (baseUrl (config c) @ ''/wp-json/wp/v2/posts?slug='' @ s
                 @ ''&_embed=author,wp:featuredmedia,wp:term'') = Respond lat r
        \<and> lat < timeout (config c) \<and> ok r \<and> body r = Some (JArr ys)"
  proof -
    from h have "request B c w (getPost_endpoint (Slug s)) default_options default_cacheTtl =
           (Returned (JArr ys),
            (if cacheable c default_options
             then c\<lparr>cache := (cache c)(cacheKey c (getPost_endpoint (Slug s)) default_options \<mapsto>
                    \<lparr>entry_data = JArr ys, timestamp = now w + int lat, ttl = default_cacheTtl\<rparr>)\<rparr>
             else c),
            w\<lparr>calls := calls w @ [request_url c (getPost_endpoint (Slug s))], now := now w + int lat\<rparr>)"
      using request_success[of c w "getPost_endpoint (Slug s)" default_options B lat r "JArr ys"
          default_cacheTtl]
      by (simp add: url)
    then show ?thesis
      unfolding getPost_def by (simp add: first_of_array url)
  qed
  from 1 2 show ?thesis by blast
qed

theorem getPost_slug_first_or_404_witness:
  "(\<exists>c2. getPost (serves (JArr [])) site start (Slug ''missing'')
       = (Thrown (WordPressApiError ''Post not found'' (Some 404) None), c2,
          \<lparr>now = 10, calls = [''http://wp/wp-json/wp/v2/posts?slug=missing&_embed=author,wp:featuredmedia,wp:term'']\<rparr>))
   \<and> (\<exists>c2. getPost (serves (JArr [post7, post7_edited])) site start (Slug ''hello'')
       = (Returned post7, c2,
          \<lparr>now = 10, calls = [''http://wp/wp-json/wp/v2/posts?slug=hello&_embed=author,wp:featuredmedia,wp:term'']\<rparr>))"
proof -
  have 1: "\<exists>c2. getPost (serves (JArr [])) site start (Slug ''missing'')
       = (Thrown (WordPressApiError ''Post not found'' (Some 404) None), c2,
          \<lparr>now = 10, calls = [''http://wp/wp-json/wp/v2/posts?slug=missing&_embed=author,wp:featuredmedia,wp:term'']\<rparr>)"
    using getPost_slug_first_or_404[of "serves (JArr [])" site start "''missing''" _ _ _ 10
        "plain 200 (Some (JArr []))" "[]", THEN conjunct2]
    by (simp add: site_no_hit site_config serves_reply plain_ok plain_body start_def)
  have 2: "\<exists>c2. getPost (serves (JArr [post7, post7_edited])) site start (Slug ''hello'')
       = (Returned post7, c2,
          \<lparr>now = 10, calls = [''http://wp/wp-json/wp/v2/posts?slug=hello&_embed=author,wp:featuredmedia,wp:term'']\<rparr>)"
    using getPost_slug_first_or_404[of "serves (JArr [post7, post7_edited])" site start "''hello''" _ _ _ 10
        "plain 200 (Some (JArr [post7, post7_edited]))" "[post7, post7_edited]", THEN conjunct2]
    by (simp add: site_no_hit site_config serves_reply plain_ok plain_body start_def)
  from 1 2 show ?thesis by blast
qed

section \<open>Caching: getPosts and getPost\<close>

lemma fetch_paginated_calls:
  "fetch_paginated B w url what pg per = (res, w1) \<Longrightarrow> calls w1 = calls w @ [url]"
  by (auto simp: fetch_paginated_def split: prod.splits outcome.splits if_splits option.splits
      dest: fetch_issues_call)

lemma first_of_Returned:
  assumes "first_of msg (x, c1, w1) = (Returned p, c2, w2)"
  shows "\<exists>d. x = Returned d \<and> c2 = c1 \<and> w2 = w1
           \<and> (\<forall>a b. first_of msg (Returned d, a, b) = (Returned p, a, b))"
proof (cases x)
  case (Returned d)
  show ?thesis
  proof (cases d)
    case (JArr xs)
    with Returned assms show ?thesis by (cases xs) (auto simp: first_of_def)
  qed (use Returned assms in \<open>auto simp: first_of_def\<close>)
qed (use assms in \<open>auto simp: first_of_def\<close>)

lemma first_of_state:
  "first_of msg (x, c1, w1) = (y, c2, w2) \<Longrightarrow> c2 = c1 \<and> w2 = w1"
  by (auto simp: first_of_def split: outcome.splits json.splits list.splits)

lemma default_cacheTtl_pos: "0 < default_cacheTtl"
  by (simp add: default_cacheTtl_def)

lemma request_cache_written:
  assumes "request B c w ep opts t = (res, c1, w1)" and "c1 \<noteq> c"
  shows "cacheable c opts \<and>
         (\<exists>d n lat r. res = Returned d \<and> length (calls w) \<le> n \<and> Suc n = length (calls w1)
            \<and> B n (request_url c ep) = Respond lat r \<and> ok r \<and> body r = Some d
            \<and> c1 = c\<lparr>cache := (cache c)(cacheKey c ep opts \<mapsto>
                       \<lparr>entry_data = d, timestamp = now w1, ttl = t\<rparr>)\<rparr>)"
proof (cases "cache_hit c w ep opts")
  case True
  then obtain e where "cacheable c opts" "cache c (cacheKey c ep opts) = Some e"
    "now w - timestamp e < ttl e"
    by (auto simp: cache_hit_def split: option.splits)
  from request_hit[OF this, of B t] assms show ?thesis by simp
next
  case False
  note rl = assms(1)[unfolded request_miss[OF False]]
  from retry_loop_cache[OF rl] assms(2) obtain d where d: "res = Returned d" "cacheable c opts"
    "c1 = c\<lparr>cache := (cache c)(cacheKey c ep opts \<mapsto>
                       \<lparr>entry_data = d, timestamp = now w1, ttl = t\<rparr>)\<rparr>"
    by (cases res) (auto split: if_splits)
  from retry_loop_Returned[OF rl[unfolded d(1)]] d show ?thesis by blast
qed

lemma uncached_config:
  "baseUrl (config uncached) = ''http://wp''" "timeout (config uncached) = 10000"
  "\<not> cacheEnabled (config uncached)" "retries (config uncached) = 3"
  by (simp_all add: uncached_def new_client_def)

lemma getPosts_serves:
  "\<exists>r. getPosts (serves d) c w params
         = (Returned r, w\<lparr>calls := calls w @ [getPosts_url c params], now := now w + 10\<rparr>)"
  by (simp add: getPosts_def fetch_paginated_ok[OF serves_reply plain_ok plain_body])

lemma getPost_serves:
  assumes "\<not> cache_hit c w (getPost_endpoint (Slug s)) default_options"
    and "0 < retries (config c)" and "10 < timeout (config c)"
  shows "getPost (serves (JArr (p # ps))) c w (Slug s) =
           (Returned p,
            (if cacheEnabled (config c)
             then c\<lparr>cache := (cache c)(cacheKey c (getPost_endpoint (Slug s)) default_options \<mapsto>
                    \<lparr>entry_data = JArr (p # ps), timestamp = now w + 10, ttl = default_cacheTtl\<rparr>)\<rparr>
             else c),
            w\<lparr>calls := calls w @ [request_url c (getPost_endpoint (Slug s))], now := now w + 10\<rparr>)"
  unfolding getPost_def
    request_success[OF assms(1,2) serves_reply assms(3) plain_ok plain_body]
  by (simp add: first_of_array default_cacheable)

text \<open>
  Claim C1, as stated, fails. On a client constructed with caching enabled, a successful
  \<^verbatim>\<open>getPosts\<close> followed immediately by an identical \<^verbatim>\<open>getPosts\<close> performs two network
  calls, not one.
\<close>

theorem getPosts_twice_counterexample:
  "cacheEnabled (config site)
   \<and> (\<exists>r1 w1 r2 w2.
         getPosts (serves (JArr [post7])) site start no_fields = (Returned r1, w1)
         \<and> getPosts (serves (JArr [post7])) site w1 no_fields = (Returned r2, w2)
         \<and> calls start = [] \<and> length (calls w2) = 2)"
proof -
  let ?w1 = "start\<lparr>calls := calls start @ [getPosts_url site no_fields], now := now start + 10\<rparr>"
  let ?w2 = "?w1\<lparr>calls := calls ?w1 @ [getPosts_url site no_fields], now := now ?w1 + 10\<rparr>"
  obtain r1 where 1: "getPosts (serves (JArr [post7])) site start no_fields = (Returned r1, ?w1)"
    using getPosts_serves by blast
  obtain r2 where 2: "getPosts (serves (JArr [post7])) site ?w1 no_fields = (Returned r2, ?w2)"
    using getPosts_serves by blast
  have 3: "calls start = []" "length (calls ?w2) = 2"
    by (simp_all add: start_def)
  from 1 2 3 site_config(3) show ?thesis by blast
qed

text \<open>
  Claim C1, amended. \<^verbatim>\<open>getPosts\<close> calls \<^verbatim>\<open>fetch\<close> directly and neither reads nor writes the
  cache: a call followed immediately by an identical call performs exactly two network
  calls, whether the client was constructed with caching enabled or disabled. The cache
  serves the operations that go through \<^verbatim>\<open>request\<close>. There it is consulted before any
  network call (a fresh entry is returned and the world is unchanged) and written only
  after a 2xx response, whose body is stored. So a successful \<^verbatim>\<open>getPost\<close> followed
  immediately by an identical \<^verbatim>\<open>getPost\<close> performs no further network call when caching is
  enabled, and a further network call when it is disabled (and \<open>retries \<ge> 1\<close>).
\<close>

theorem getPosts_uncached_getPost_cached:
  "(getPosts B c w params = (res1, wa) \<and> getPosts B c wa params = (res2, wb)
      \<longrightarrow> calls wb = calls w @ [getPosts_url c params, getPosts_url c params])
   \<and> (cache_hit c w ep opts \<longrightarrow> (\<exists>d. request B c w ep opts t = (Returned d, c, w)))
   \<and> (request B c w ep opts t = (res, c1, w1) \<and> c1 \<noteq> c \<longrightarrow>
        cacheable c opts \<and>
        (\<exists>d n lat r. res = Returned d \<and> length (calls w) \<le> n \<and> Suc n = length (calls w1)
           \<and> B n (request_url c ep) = Respond lat r \<and> ok r \<and> body r = Some d
           \<and> c1 = c\<lparr>cache := (cache c)(cacheKey c ep opts \<mapsto>
                      \<lparr>entry_data = d, timestamp = now w1, ttl = t\<rparr>)\<rparr>))
   \<and> (cacheEnabled (config c) \<and> getPost B c w ident = (Returned p, c2, w2)
        \<longrightarrow> getPost B' c2 w2 ident = (Returned p, c2, w2))
   \<and> (\<not> cacheEnabled (config c) \<and> 0 < retries (config c)
        \<and> getPost B c w ident = (res3, c3, w3) \<and> getPost B c3 w3 ident = (res4, c4, w4)
        \<longrightarrow> c3 = c \<and> (\<exists>rest. calls w4 = calls w3 @ request_url c (getPost_endpoint ident) # rest))"
proof -
  have 1: "calls wb = calls w @ [getPosts_url c params, getPosts_url c params]"
    if "getPosts B c w params = (res1, wa) \<and> getPosts B c wa params = (res2, wb)"
    using that by (auto simp: getPosts_def dest!: fetch_paginated_calls)
  have 2: "\<exists>d. request B c w ep opts t = (Returned d, c, w)" if "cache_hit c w ep opts"
    using that by (auto simp: cache_hit_def request_def split: option.splits)
  note 3 = request_cache_written[of B c w ep opts t res c1 w1]
  have 4: "getPost B' c2 w2 ident = (Returned p, c2, w2)"
    if h: "cacheEnabled (config c) \<and> getPost B c w ident = (Returned p, c2, w2)"
  proof -
    obtain x ca wa where rq:
      "request B c w (getPost_endpoint ident) default_options default_cacheTtl = (x, ca, wa)"
      by (cases "request B c w (getPost_endpoint ident) default_options default_cacheTtl") auto
    from h have "first_of ''Post not found'' (x, ca, wa) = (Returned p, c2, w2)"
      by (simp add: getPost_def rq)
    from first_of_Returned[OF this] obtain d where d: "x = Returned d" "c2 = ca" "w2 = wa"
      "\<And>a b. first_of ''Post not found'' (Returned d, a, b) = (Returned p, a, b)" by blast
    from h have cb: "cacheable c default_options" by (simp add: default_cacheable)
    from request_again[OF cb default_cacheTtl_pos rq[unfolded d(1)], of B' default_cacheTtl] d
    show ?thesis by (simp add: getPost_def)
  qed
  have 5: "c3 = c \<and> (\<exists>rest. calls w4 = calls w3 @ request_url c (getPost_endpoint ident) # rest)"
    if h: "\<not> cacheEnabled (config c) \<and> 0 < retries (config c)
        \<and> getPost B c w ident = (res3, c3, w3) \<and> getPost B c3 w3 ident = (res4, c4, w4)"
  proof -
    from h have ncb: "\<not> cacheable c default_options" by (simp add: default_cacheable)
    obtain x ca wa where rq:
      "request B c w (getPost_endpoint ident) default_options default_cacheTtl = (x, ca, wa)"
      by (cases "request B c w (getPost_endpoint ident) default_options default_cacheTtl") auto
    from h have "first_of ''Post not found'' (x, ca, wa) = (res3, c3, w3)"
      by (simp add: getPost_def rq)
    from first_of_state[OF this] request_uncached[OF ncb rq] have c3: "c3 = c" "w3 = wa" by simp_all
    obtain y cb wb where rq2:
      "request B c w3 (getPost_endpoint ident) default_options default_cacheTtl = (y, cb, wb)"
      by (cases "request B c w3 (getPost_endpoint ident) default_options default_cacheTtl") auto
    from h rq2 c3 have "first_of ''Post not found'' (y, cb, wb) = (res4, c4, w4)"
      by (auto simp: getPost_def)
    from first_of_state[OF this] have w4: "w4 = wb" by simp
    from ncb have "\<not> cache_hit c w3 (getPost_endpoint ident) default_options"
      by (simp add: cache_hit_def)
    from request_first_call[OF this _ rq2] h c3 w4 show ?thesis by simp
  qed
  from 1 2 3 4 5 show ?thesis by blast
qed


theorem getPosts_uncached_getPost_cached_witness:
  "(\<exists>r1 w1 r2 w2.
       getPosts (serves (JArr [post7])) site start no_fields = (Returned r1, w1)
       \<and> getPosts (serves (JArr [post7])) site w1 no_fields = (Returned r2, w2)
       \<and> calls w2 = [getPosts_url site no_fields, getPosts_url site no_fields])
   \<and> (\<exists>c1 w1.
       getPost (serves (JArr [post7])) site start (Slug ''hello'') = (Returned post7, c1, w1)
       \<and> getPost (serves (JArr [post7])) c1 w1 (Slug ''hello'') = (Returned post7, c1, w1)
       \<and> calls w1 = [request_url site (getPost_endpoint (Slug ''hello''))])
   \<and> (\<exists>w1 w2.
       getPost (serves (JArr [post7])) uncached start (Slug ''hello'') = (Returned post7, uncached, w1)
       \<and> getPost (serves (JArr [post7])) uncached w1 (Slug ''hello'') = (Returned post7, uncached, w2)
       \<and> calls w2 = [request_url uncached (getPost_endpoint (Slug ''hello'')),
                      request_url uncached (getPost_endpoint (Slug ''hello''))])"
proof -
  let ?B = "serves (JArr [post7])"
  let ?ep = "getPost_endpoint (Slug ''hello'')"
  note thm1 = getPosts_uncached_getPost_cached[where B = ?B and B' = ?B]
  \<comment> \<open>getPosts, twice\<close>
  obtain r1 w1 where a: "getPosts ?B site start no_fields = (Returned r1, w1)"
    using getPosts_serves by blast
  obtain r2 w2 where b: "getPosts ?B site w1 no_fields = (Returned r2, w2)"
    using getPosts_serves by blast
  from thm1[where c = site and w = start and params = no_fields and ?res1.0 = "Returned r1"
      and wa = w1 and ?res2.0 = "Returned r2" and wb = w2, THEN conjunct1] a b
  have "calls w2 = [getPosts_url site no_fields, getPosts_url site no_fields]"
    by (simp add: start_def)
  with a b have 1: "\<exists>r1 w1 r2 w2.
       getPosts ?B site start no_fields = (Returned r1, w1)
       \<and> getPosts ?B site w1 no_fields = (Returned r2, w2)
       \<and> calls w2 = [getPosts_url site no_fields, getPosts_url site no_fields]" by blast
  \<comment> \<open>getPost, twice, with caching\<close>
  obtain c1 wc where c: "getPost ?B site start (Slug ''hello'') = (Returned post7, c1, wc)"
    and wc: "calls wc = [request_url site ?ep]"
    using getPost_serves[of site start "''hello''" post7 "[]"]
    by (simp add: site_no_hit site_config start_def)
  from thm1[where c = site and w = start and ident = "Slug ''hello''" and p = post7
      and ?c2.0 = c1 and ?w2.0 = wc, THEN conjunct2, THEN conjunct2, THEN conjunct2, THEN conjunct1] c
  have "getPost ?B c1 wc (Slug ''hello'') = (Returned post7, c1, wc)"
    by (simp add: site_config)
  with c wc have 2: "\<exists>c1 w1.
       getPost ?B site start (Slug ''hello'') = (Returned post7, c1, w1)
       \<and> getPost ?B c1 w1 (Slug ''hello'') = (Returned post7, c1, w1)
       \<and> calls w1 = [request_url site ?ep]" by blast
  \<comment> \<open>getPost, twice, without caching\<close>
  have nh: "\<not> cache_hit uncached w ?ep default_options" for w
    by (simp add: cache_hit_def default_cacheable uncached_config)
  have d: "getPost ?B uncached start (Slug ''hello'')
      = (Returned post7, uncached, start\<lparr>calls := calls start @ [request_url uncached ?ep], now := now start + 10\<rparr>)"
    using getPost_serves[of uncached start "''hello''" post7 "[]", OF nh]
    by (simp add: uncached_config)
  let ?w1 = "start\<lparr>calls := calls start @ [request_url uncached ?ep], now := now start + 10\<rparr>"
  have e: "getPost ?B uncached ?w1 (Slug ''hello'')
      = (Returned post7, uncached, ?w1\<lparr>calls := calls ?w1 @ [request_url uncached ?ep], now := now ?w1 + 10\<rparr>)"
    using getPost_serves[of uncached ?w1 "''hello''" post7 "[]", OF nh]
    by (simp add: uncached_config)
  from thm1[where c = uncached and w = start and ident = "Slug ''hello''"
      and ?res3.0 = "Returned post7" and ?c3.0 = uncached and ?w3.0 = ?w1
      and ?res4.0 = "Returned post7" and ?c4.0 = uncached
      and ?w4.0 = "?w1\<lparr>calls := calls ?w1 @ [request_url uncached ?ep], now := now ?w1 + 10\<rparr>",
      THEN conjunct2, THEN conjunct2, THEN conjunct2, THEN conjunct2] d e
  have "\<exists>rest. calls (?w1\<lparr>calls := calls ?w1 @ [request_url uncached ?ep], now := now ?w1 + 10\<rparr>)
      = calls ?w1 @ request_url uncached ?ep # rest"
    by (simp add: uncached_config)
  then have f: "calls (?w1\<lparr>calls := calls ?w1 @ [request_url uncached ?ep], now := now ?w1 + 10\<rparr>)
      = [request_url uncached ?ep, request_url uncached ?ep]"
    by (simp add: start_def)
  from d e f have 3: "\<exists>w1 w2.
       getPost ?B uncached start (Slug ''hello'') = (Returned post7, uncached, w1)
       \<and> getPost ?B uncached w1 (Slug ''hello'') = (Returned post7, uncached, w2)
       \<and> calls w2 = [request_url uncached ?ep, request_url uncached ?ep]"
    by blast
  from 1 2 3 show ?thesis by blast
qed

section \<open>Retries: how failures are classified\<close>

text \<open>
  What the retry loop does on the failures a backend can produce. A backend that answers
  every call with the same response that is not ok and not a client error exhausts the
  attempts: \<open>retries\<close> calls, with a pause of \<open>2 ^ attempt\<close> seconds after each attempt but
  the last, and the last error is thrown. A response that is a client error ends the loop
  at once. Once the controller has aborted, no later attempt reaches the network. A first
  call that is never answered is aborted when the timer fires, and every later attempt
  fails at once; a call that is not answered after the timer was cleared never settles.
\<close>

lemma sleep_disarmed:
  "timer ctl = None \<Longrightarrow> sleep ms ctl w = (ctl, w\<lparr>now := now w + ms\<rparr>)"
  by (simp add: sleep_def run_timers_def Let_def)

lemma pow_step: "a + 1 < n \<Longrightarrow> (2::int) ^ a \<le> 2 ^ (n - 1)"
  by (rule power_increasing) auto

lemma retry_loop_all_fail:
  assumes "\<And>n. B n url = Respond lat r" and "\<not> ok r"
    and "\<not> is_client_error (error_from_response r)"
  shows "\<not> aborted ctl \<Longrightarrow> in_time ctl w lat \<Longrightarrow> a < retries (config c) \<Longrightarrow>
     retry_loop B url key cb t a le ctl c w =
       (Thrown (error_from_response r), c,
        w\<lparr>calls := calls w @ replicate (retries (config c) - a) url,
          now := now w + int (retries (config c) - a) * int lat
                   + 1000 * (2 ^ (retries (config c) - 1) - 2 ^ a)\<rparr>)"
proof (induction "retries (config c) - a" arbitrary: a le ctl w)
  case 0
  then show ?case by simp
next
  case (Suc n)
  let ?w1 = "w\<lparr>calls := calls w @ [url], now := now w + int lat\<rparr>"
  let ?ctl1 = "ctl\<lparr>timer := None\<rparr>"
  have tb: "try_block B url ctl w = (Caught (error_from_response r), ?ctl1, ?w1)"
    using try_block_response[of ctl B w url lat r, OF Suc.prems(1) assms(1) Suc.prems(2)] assms(2) by simp
  note step = retry_loop_step[OF Suc.prems(3) tb, of key cb t le]
  show ?case
  proof (cases "a + 1 < retries (config c)")
    case True
    let ?w2 = "?w1\<lparr>now := now ?w1 + 2 ^ a * 1000\<rparr>"
    have sl: "sleep (2 ^ a * 1000) ?ctl1 ?w1 = (?ctl1, ?w2)"
      by (simp add: sleep_disarmed)
    from Suc.hyps(2) have n: "n = retries (config c) - Suc a" by simp
    have ih: "retry_loop B url key cb t (Suc a) (Some (error_from_response r)) ?ctl1 c ?w2 =
       (Thrown (error_from_response r), c,
        ?w2\<lparr>calls := calls ?w2 @ replicate (retries (config c) - Suc a) url,
          now := now ?w2 + int (retries (config c) - Suc a) * int lat
                   + 1000 * (2 ^ (retries (config c) - 1) - 2 ^ Suc a)\<rparr>)"
      using Suc.hyps(1)[OF n, where ctl = ?ctl1 and w = ?w2 and le = "Some (error_from_response r)"]
        Suc.prems(1) True by (simp add: in_time_def)
    have r: "retries (config c) - a = Suc (retries (config c) - Suc a)"
      using True by simp
    have "retry_loop B url key cb t a le ctl c w
        = retry_loop B url key cb t (Suc a) (Some (error_from_response r)) ?ctl1 c ?w2"
      unfolding step using True assms(3) by (simp add: sl)
    also note ih
    also have "?w2\<lparr>calls := calls ?w2 @ replicate (retries (config c) - Suc a) url,
          now := now ?w2 + int (retries (config c) - Suc a) * int lat
                   + 1000 * (2 ^ (retries (config c) - 1) - 2 ^ Suc a)\<rparr>
        = w\<lparr>calls := calls w @ replicate (retries (config c) - a) url,
          now := now w + int (retries (config c) - a) * int lat
                   + 1000 * (2 ^ (retries (config c) - 1) - 2 ^ a)\<rparr>"
      unfolding r by (simp add: replicate_app_Cons_same algebra_simps)
    finally show ?thesis .
  next
    case False
    with Suc.prems(3) have r: "retries (config c) = Suc a" by simp
    have ex: "\<not> Suc a < retries (config c)" using r by simp
    show ?thesis
      unfolding step using False assms(3)
      by (simp add: retry_loop_exhausted[OF ex] r)
  qed
qed

lemma retry_loop_after_abort:
  "aborted ctl \<Longrightarrow> timer ctl = None \<Longrightarrow> a < retries (config c) \<Longrightarrow>
     retry_loop B url key cb t a le ctl c w =
       (Thrown abort_error, c,
        w\<lparr>now := now w + 1000 * (2 ^ (retries (config c) - 1) - 2 ^ a)\<rparr>)"
proof (induction "retries (config c) - a" arbitrary: a le w)
  case 0
  then show ?case by simp
next
  case (Suc n)
  have tb: "try_block B url ctl w = (Caught abort_error, ctl, w)"
    using Suc.prems(1,2) by (simp add: try_block_aborted run_timers_def)
  note step = retry_loop_step[OF Suc.prems(3) tb, of key cb t le]
  have nce: "\<not> is_client_error abort_error" by (simp add: abort_error_def)
  show ?case
  proof (cases "a + 1 < retries (config c)")
    case True
    let ?w2 = "w\<lparr>now := now w + 2 ^ a * 1000\<rparr>"
    from Suc.hyps(2) have n: "n = retries (config c) - Suc a" by simp
    have ih: "retry_loop B url key cb t (Suc a) (Some abort_error) ctl c ?w2 =
       (Thrown abort_error, c,
        ?w2\<lparr>now := now ?w2 + 1000 * (2 ^ (retries (config c) - 1) - 2 ^ Suc a)\<rparr>)"
      using Suc.hyps(1)[OF n Suc.prems(1,2), where w = ?w2 and le = "Some abort_error"] True by simp
    have "retry_loop B url key cb t a le ctl c w
        = retry_loop B url key cb t (Suc a) (Some abort_error) ctl c ?w2"
      unfolding step using True nce by (simp add: sleep_disarmed[OF Suc.prems(2)])
    also note ih
    also have "?w2\<lparr>now := now ?w2 + 1000 * (2 ^ (retries (config c) - 1) - 2 ^ Suc a)\<rparr>
        = w\<lparr>now := now w + 1000 * (2 ^ (retries (config c) - 1) - 2 ^ a)\<rparr>"
      by (simp add: algebra_simps)
    finally show ?thesis .
  next
    case False
    with Suc.prems(3) have r: "retries (config c) = Suc a" by simp
    have ex: "\<not> Suc a < retries (config c)" using r by simp
    show ?thesis
      unfolding step using False nce
      by (simp add: retry_loop_exhausted[OF ex] r)
  qed
qed


lemma error_from_null:
  "body r = Some JNull \<Longrightarrow>
     error_from_response r
       = JsError ''TypeError'' ''Cannot read properties of null (reading 'message')''"
  by (simp add: error_from_response_def errorData_def)

lemma error_from_response_typed:
  "typed_error_response r \<Longrightarrow>
     \<exists>m. error_from_response r
           = WordPressApiError m (Some (status r)) (get_prop (errorData r) ''code'')"
  by (auto simp: error_from_response_def typed_error_response_def split: option.splits)



lemma untyped_not_client_error:
  "\<not> typed_error_response r \<Longrightarrow> \<not> is_client_error (error_from_response r)"
  by (auto simp: error_from_response_def typed_error_response_def split: option.splits)

text \<open>
  An error body without a message, or whose message is a string, a number or a boolean,
  gives the typed error.
\<close>

lemma typed_error_response_plain:
  assumes "errorData r \<noteq> JNull"
    and "case get_prop (errorData r) ''message'' of
           None \<Rightarrow> True
         | Some m \<Rightarrow> (case m of JArr xs \<Rightarrow> False | JObj kvs \<Rightarrow> False | _ \<Rightarrow> True)"
  shows "typed_error_response r"
  using assms
  by (auto simp: typed_error_response_def response_message_def split: option.splits json.splits)

lemma new_controller_in_time:
  "lat < timeout (config c) \<Longrightarrow> in_time (new_controller c w) w lat"
  by (simp add: in_time_def new_controller_def)

lemma new_controller_not_aborted: "\<not> aborted (new_controller c w)"
  by (simp add: new_controller_def)

lemma request_no_attempts:
  assumes "\<not> cache_hit c w ep opts" and "retries (config c) = 0"
  shows "request B c w ep opts t
           = (Thrown (WordPressApiError ''Request failed after retries'' None None), c, w)"
  unfolding request_miss[OF assms(1)] using assms(2) by (simp add: retry_loop_exhausted)

lemma request_client_error_terminal:
  assumes "\<not> cache_hit c w ep opts" and "0 < retries (config c)"
    and "B (length (calls w)) (request_url c ep) = Respond lat r" and "lat < timeout (config c)"
    and "\<not> ok r" and "is_client_error (error_from_response r)"
  shows "request B c w ep opts t =
           (Thrown (error_from_response r), c,
            w\<lparr>calls := calls w @ [request_url c ep], now := now w + int lat\<rparr>)"
  unfolding request_miss[OF assms(1)]
    retry_loop_step[OF assms(2) try_block_response[of "new_controller c w" B w _ lat r,
        OF new_controller_not_aborted assms(3) new_controller_in_time[OF assms(4)]]]
  using assms(5,6) by simp

lemma request_all_fail:
  assumes "\<not> cache_hit c w ep opts" and "0 < retries (config c)"
    and "\<And>n. B n (request_url c ep) = Respond lat r" and "lat < timeout (config c)"
    and "\<not> ok r" and "\<not> is_client_error (error_from_response r)"
  shows "request B c w ep opts t =
           (Thrown (error_from_response r), c,
            w\<lparr>calls := calls w @ replicate (retries (config c)) (request_url c ep),
              now := now w + int (retries (config c)) * int lat
                       + 1000 * (2 ^ (retries (config c) - 1) - 1)\<rparr>)"
  unfolding request_miss[OF assms(1)]
  using retry_loop_all_fail[of B "request_url c ep" lat r "new_controller c w" w 0 c
      "cacheKey c ep opts" "cacheable c opts" t None,
      OF assms(3,5,6) new_controller_not_aborted new_controller_in_time[OF assms(4)] assms(2)]
  by simp

lemma try_block_unanswered:
  assumes "\<not> aborted ctl" and "B (length (calls w)) url = Hang"
  shows "try_block B url ctl w =
           (case timer ctl of
              None \<Rightarrow> (Stuck, ctl, w\<lparr>calls := calls w @ [url]\<rparr>)
            | Some d \<Rightarrow> (Caught abort_error, \<lparr>aborted = True, timer = None\<rparr>,
                         w\<lparr>calls := calls w @ [url], now := max (now w) d\<rparr>))"
  using assms
  by (auto simp: try_block_def fetch_def Let_def run_timers_def split: option.splits)

lemma request_unanswered:
  assumes "\<not> cache_hit c w ep opts" and "0 < retries (config c)"
    and "B (length (calls w)) (request_url c ep) = Hang"
  shows "request B c w ep opts t =
           (Thrown abort_error, c,
            w\<lparr>calls := calls w @ [request_url c ep],
              now := now w + int (timeout (config c))
                       + 1000 * (2 ^ (retries (config c) - 1) - 1)\<rparr>)"
proof -
  let ?url = "request_url c ep"
  let ?w1 = "w\<lparr>calls := calls w @ [?url], now := now w + int (timeout (config c))\<rparr>"
  let ?ab = "\<lparr>aborted = True, timer = None\<rparr>"
  have tb: "try_block B ?url (new_controller c w) w = (Caught abort_error, ?ab, ?w1)"
    using try_block_unanswered[of "new_controller c w" B w ?url, OF new_controller_not_aborted assms(3)]
    by (simp add: new_controller_def max_def)
  note step = retry_loop_step[OF assms(2) tb, of "cacheKey c ep opts" "cacheable c opts" t None]
  have nce: "\<not> is_client_error abort_error" by (simp add: abort_error_def)
  show ?thesis
  proof (cases "0 + 1 < retries (config c)")
    case True
    have sl: "sleep (1000) ?ab ?w1 = (?ab, ?w1\<lparr>now := now ?w1 + 1000\<rparr>)"
      by (simp add: sleep_disarmed)
    have "Suc 0 < retries (config c)" using True by simp
    from retry_loop_after_abort[of ?ab "Suc 0" c B ?url "cacheKey c ep opts" "cacheable c opts" t
        "Some abort_error" "?w1\<lparr>now := now ?w1 + 1000\<rparr>", OF _ _ this]
    have "retry_loop B ?url (cacheKey c ep opts) (cacheable c opts) t (Suc 0) (Some abort_error) ?ab c
            (?w1\<lparr>now := now ?w1 + 1000\<rparr>)
          = (Thrown abort_error, c,
             w\<lparr>calls := calls w @ [?url],
               now := now w + int (timeout (config c)) + 1000 * (2 ^ (retries (config c) - 1) - 1)\<rparr>)"
      by (simp add: algebra_simps)
    then show ?thesis
      unfolding request_miss[OF assms(1)] step using True nce by (simp add: sl)
  next
    case False
    with assms(2) have r: "retries (config c) = Suc 0" by simp
    have ex: "\<not> Suc 0 < retries (config c)" using r by simp
    show ?thesis
      unfolding request_miss[OF assms(1)] step using False nce
      by (simp add: retry_loop_exhausted[OF ex] r)
  qed
qed

lemma request_stalls_after_response:
  assumes "\<not> cache_hit c w ep opts" and "1 < retries (config c)"
    and "B (length (calls w)) (request_url c ep) = Respond lat r" and "lat < timeout (config c)"
    and "\<not> ok r" and "\<not> is_client_error (error_from_response r)"
    and "B (Suc (length (calls w))) (request_url c ep) = Hang"
  shows "request B c w ep opts t =
           (NeverSettles, c,
            w\<lparr>calls := calls w @ [request_url c ep, request_url c ep],
              now := now w + int lat + 1000\<rparr>)"
proof -
  let ?url = "request_url c ep"
  let ?ctl1 = "(new_controller c w)\<lparr>timer := None\<rparr>"
  let ?w1 = "w\<lparr>calls := calls w @ [?url], now := now w + int lat\<rparr>"
  let ?w2 = "w\<lparr>calls := calls w @ [?url], now := now w + int lat + 1000\<rparr>"
  have r0: "0 < retries (config c)" and r1: "0 + 1 < retries (config c)"
    and r2: "Suc 0 < retries (config c)" using assms(2) by simp_all
  have tb: "try_block B ?url (new_controller c w) w = (Caught (error_from_response r), ?ctl1, ?w1)"
    using try_block_response[of "new_controller c w" B w ?url lat r,
        OF new_controller_not_aborted assms(3) new_controller_in_time[OF assms(4)]] assms(5)
    by simp
  have sl: "sleep 1000 ?ctl1 ?w1 = (?ctl1, ?w2)"
    by (simp add: sleep_disarmed)
  have tb2: "try_block B ?url ?ctl1 ?w2 = (Stuck, ?ctl1, ?w2\<lparr>calls := calls ?w2 @ [?url]\<rparr>)"
    using try_block_unanswered[of ?ctl1 B ?w2 ?url] assms(7)
    by (simp add: new_controller_def)
  have "request B c w ep opts t
      = retry_loop B ?url (cacheKey c ep opts) (cacheable c opts) t (Suc 0)
          (Some (error_from_response r)) ?ctl1 c ?w2"
    unfolding request_miss[OF assms(1)]
      retry_loop_step[OF r0 tb, of "cacheKey c ep opts" "cacheable c opts" t None]
    using r1 assms(6) by (simp add: sl)
  also have "\<dots> = (NeverSettles, c, ?w2\<lparr>calls := calls ?w2 @ [?url]\<rparr>)"
    unfolding retry_loop_step[OF r2 tb2] by simp
  also have "?w2\<lparr>calls := calls ?w2 @ [?url]\<rparr>
      = w\<lparr>calls := calls w @ [?url, ?url], now := now w + int lat + 1000\<rparr>"
    by simp
  finally show ?thesis .
qed

section \<open>Retries on concrete backends\<close>

lemma first_of_other:
  "first_of msg (Thrown e, c, w) = (Thrown e, c, w)"
  "first_of msg (NeverSettles, c, w) = (NeverSettles, c, w)"
  by (simp_all add: first_of_def)

lemma null_404_reply: "null_404 n url = Respond 10 (plain 404 (Some JNull))"
  by (simp add: null_404_def always_def)

lemma object_404_reply: "object_404 n url = Respond 10 (plain 404 (Some rest_error))"
  by (simp add: object_404_def always_def)

lemma plain_not_ok: "s < 200 \<or> 299 < s \<Longrightarrow> \<not> ok (plain s b)"
  by (auto simp: ok_def plain_def)

lemma rest_error_thrown:
  "error_from_response (plain 404 (Some rest_error))
     = WordPressApiError ''Invalid post ID.'' (Some 404) (Some (JStr ''rest_post_invalid_id''))"
  by (simp add: error_from_response_def errorData_def response_message_def plain_def
      rest_error_def)

lemma stalls_first: "stalls_after_500 0 url = Respond 10 (plain 500 None)"
  and stalls_second: "stalls_after_500 (Suc 0) url = Hang"
  by (simp_all add: stalls_after_500_def)

lemma error_500_not_client: "\<not> is_client_error (error_from_response (plain 500 None))"
  by (simp add: error_from_response_def errorData_def response_message_def plain_def)

text \<open>
  Claim C2 says that a response with a status below 500 ends the request after one
  network call with the typed error. The code does so when the error body is the object
  WordPress sends: one call, \<^verbatim>\<open>WordPressApiError\<close> with status 404 and the backend's code.
  When the body of the 404 response is the JSON value \<^verbatim>\<open>null\<close>, reading
  \<^verbatim>\<open>errorData.message\<close> throws a \<^verbatim>\<open>TypeError\<close> inside the \<^verbatim>\<open>try\<close> block; the \<^verbatim>\<open>catch\<close> block
  does not see a \<^verbatim>\<open>WordPressApiError\<close> and retries: with \<open>retries = 3\<close> the client makes
  three network calls, waits 1 s and 2 s between them, and throws the \<^verbatim>\<open>TypeError\<close>.
\<close>

theorem null_error_body_is_retried:
  "(case getPost null_404 site start (Numeric 1) of
      (res, c1, w1) \<Rightarrow>
        res = Thrown (JsError ''TypeError'' ''Cannot read properties of null (reading 'message')'')
        \<and> length (calls w1) = 3 \<and> now w1 = 3030)
   \<and> (case getPost object_404 site start (Numeric 1) of
      (res, c1, w1) \<Rightarrow>
        res = Thrown (WordPressApiError ''Invalid post ID.'' (Some 404)
                        (Some (JStr ''rest_post_invalid_id'')))
        \<and> length (calls w1) = 1 \<and> now w1 = 10)"
proof -
  let ?ep = "getPost_endpoint (Numeric 1)"
  have e: "error_from_response (plain 404 (Some JNull))
      = JsError ''TypeError'' ''Cannot read properties of null (reading 'message')''"
    by (simp add: error_from_null plain_body)
  have 1: "request null_404 site start ?ep default_options default_cacheTtl
      = (Thrown (error_from_response (plain 404 (Some JNull))), site,
         start\<lparr>calls := calls start @ replicate (retries (config site)) (request_url site ?ep),
           now := now start + int (retries (config site)) * int 10
                    + 1000 * (2 ^ (retries (config site) - 1) - 1)\<rparr>)"
    by (rule request_all_fail[OF site_no_hit _ null_404_reply])
       (simp_all add: site_config plain_not_ok e)
  have 2: "request object_404 site start ?ep default_options default_cacheTtl
      = (Thrown (error_from_response (plain 404 (Some rest_error))), site,
         start\<lparr>calls := calls start @ [request_url site ?ep], now := now start + int 10\<rparr>)"
    by (rule request_client_error_terminal[OF site_no_hit _ object_404_reply])
       (simp_all add: site_config plain_not_ok rest_error_thrown)
  show ?thesis
    unfolding getPost_def 1 2 first_of_other e rest_error_thrown
    by (simp add: site_config start_def)
qed

text \<open>
  Claim C3 says that every attempt has its own, freshly armed timeout. The code arms one
  timer and one controller before the loop. With \<open>timeout = 10000\<close>: a backend that
  answers the first call with status 500 and then stays silent leaves the second attempt
  without any timeout (the timer was cleared after the first response), and the request
  never settles; a backend that never answers has the first attempt aborted after 10 s,
  and the two remaining attempts fail at once on the aborted signal without a network
  call; a backend that refuses every connection, with \<open>retries = 5\<close>, sees four calls only:
  the timer, still armed, fires during the fourth pause (1 + 2 + 4 + 8 s of pauses exceed
  the 10 s), and the fifth attempt is rejected before it is sent.
\<close>

theorem shared_timer_fails_attempts:
  "(case getPost stalls_after_500 site start (Numeric 1) of
      (res, c1, w1) \<Rightarrow> res = NeverSettles \<and> length (calls w1) = 2 \<and> now w1 = 1010)
   \<and> (case getPost silent site start (Numeric 1) of
      (res, c1, w1) \<Rightarrow> res = Thrown abort_error \<and> length (calls w1) = 1 \<and> now w1 = 13000)
   \<and> (case getPost refuses five_tries start (Numeric 1) of
      (res, c1, w1) \<Rightarrow> res = Thrown abort_error \<and> length (calls w1) = 4 \<and> now w1 = 15040)
   \<and> timeout (config site) = 10000 \<and> retries (config site) = 3
   \<and> timeout (config five_tries) = 10000 \<and> retries (config five_tries) = 5"
proof -
  let ?ep = "getPost_endpoint (Numeric 1)"
  have 1: "request stalls_after_500 site start ?ep default_options default_cacheTtl
      = (NeverSettles, site,
         start\<lparr>calls := calls start @ [request_url site ?ep, request_url site ?ep],
           now := now start + int 10 + 1000\<rparr>)"
    by (rule request_stalls_after_response[where r = "plain 500 None"])
       (simp_all add: site_no_hit site_config start_def stalls_first stalls_second plain_not_ok
         error_500_not_client)
  have 2: "request silent site start ?ep default_options default_cacheTtl
      = (Thrown abort_error, site,
         start\<lparr>calls := calls start @ [request_url site ?ep],
           now := now start + int (timeout (config site))
                    + 1000 * (2 ^ (retries (config site) - 1) - 1)\<rparr>)"
    by (rule request_unanswered) (simp_all add: site_no_hit site_config silent_def always_def)
  have 3: "(case getPost refuses five_tries start (Numeric 1) of
      (res, c1, w1) \<Rightarrow> res = Thrown abort_error \<and> length (calls w1) = 4 \<and> now w1 = 15040)"
    by code_simp
  have 4: "timeout (config five_tries) = 10000 \<and> retries (config five_tries) = 5"
    by (simp add: five_tries_def new_client_def)
  show ?thesis
    unfolding getPost_def 1 2 first_of_other
    using 3 4 by (simp add: site_config start_def getPost_def)
qed

section \<open>How failures reach the caller\<close>








subsection \<open>What a request that fails ends in\<close>





















text \<open>
  A 404 whose message cannot be converted to a string is retried as well: the conversion
  throws inside the \<^verbatim>\<open>try\<close> block, like the property read on \<^verbatim>\<open>null\<close>.
\<close>

lemma unconvertible_untyped: "\<not> typed_error_response (plain 404 (Some unconvertible))"
  by (simp add: typed_error_response_def response_message_def errorData_def plain_def
        unconvertible_def)

lemma unconvertible_404_reply: "unconvertible_404 n url = Respond 10 (plain 404 (Some unconvertible))"
  by (simp add: unconvertible_404_def always_def)

lemma unconvertible_message_is_retried:
  "\<exists>w1. request unconvertible_404 site start ep default_options default_cacheTtl
          = (Thrown (JsError ''TypeError'' ''Cannot convert object to primitive value''), site, w1)
        \<and> calls w1 = replicate 3 (request_url site ep) \<and> now w1 = 3030"
proof -
  have e: "error_from_response (plain 404 (Some unconvertible))
             = JsError ''TypeError'' ''Cannot convert object to primitive value''"
    by (simp add: error_from_response_def response_message_def errorData_def plain_def
          unconvertible_def)
  have "request unconvertible_404 site start ep default_options default_cacheTtl =
           (Thrown (error_from_response (plain 404 (Some unconvertible))), site,
            start\<lparr>calls := calls start @ replicate (retries (config site)) (request_url site ep),
              now := now start + int (retries (config site)) * int 10
                       + 1000 * (2 ^ (retries (config site) - 1) - 1)\<rparr>)"
    by (rule request_all_fail[OF site_no_hit _ unconvertible_404_reply])
       (simp_all add: site_config plain_not_ok untyped_not_client_error unconvertible_untyped)
  then show ?thesis by (simp add: e site_config start_def)
qed





end
